theory Spec2Isabelle
  imports Main "HOL-Library.Word" "HOL-Library.AList"
begin

unbundle bit_operations_syntax

section \<open>Secure telemetry ingestion: src/utils/encryption.js and saveVapiCallLog\<close>

text \<open>
  The development embeds \<^verbatim>\<open>decryptPayload\<close> and \<^verbatim>\<open>encryptPayload\<close> of
  \<^verbatim>\<open>src/utils/encryption.js\<close> and the handler \<^verbatim>\<open>saveVapiCallLog\<close> of
  \<^verbatim>\<open>src/controller/vapi.Controller.js\<close>.

  What the two files compute themselves is written out: property reads and truthiness of
  request values, the hex and UTF-8 conversions of \<^verbatim>\<open>Buffer\<close>, the padding and slicing of
  the initialisation vector, the freshness comparison, the object spread and \<^verbatim>\<open>delete\<close>,
  the status codes and response bodies, and the order in which library calls happen.
  What Node's \<^verbatim>\<open>crypto\<close> module, \<^verbatim>\<open>JSON\<close> and the Firestore client compute is not
  code of the repository: it enters every definition as a field of the record
  \<open>runtime\<close>, and no theorem assumes more about a field than its statement says.

  Abstractions, all of them stated here:
  \<^item> a JavaScript string is a \<open>string\<close>, a list of code units below 256;
  \<^item> a JavaScript number that JSON can carry is an \<open>int\<close> (timestamps are integer
    milliseconds), and \<open>NaN\<close> is a value of its own;
  \<^item> the console output is left out;
  \<^item> an exception is the message of the thrown \<^verbatim>\<open>Error\<close>; the messages this file
    writes for Node's own type errors paraphrase Node's.
\<close>

subsection \<open>Values\<close>

type_synonym byte = "8 word"

datatype json =
    JNull
  | JBool bool
  | JNum int
  | JStr string
  | JArr "json list"
  | JObj "(string \<times> json) list"

text \<open>The result of an arithmetic expression: a number or \<^verbatim>\<open>NaN\<close>.\<close>

datatype jsnum = NaN | Num int

datatype js_error = Error string

fun message :: "js_error \<Rightarrow> string" where
  "message (Error m) = m"

text \<open>\<^verbatim>\<open>a - b\<close> and \<^verbatim>\<open>a > b\<close> on numbers: \<^verbatim>\<open>NaN\<close> is absorbing, and compares false.\<close>

fun js_minus :: "jsnum \<Rightarrow> jsnum \<Rightarrow> jsnum" where
  "js_minus (Num a) (Num b) = Num (a - b)"
| "js_minus _ _ = NaN"

fun js_greater :: "jsnum \<Rightarrow> jsnum \<Rightarrow> bool" where
  "js_greater (Num a) (Num b) = (a > b)"
| "js_greater _ _ = False"

text \<open>
  A property read \<^verbatim>\<open>v.k\<close>. \<open>None\<close> is \<^verbatim>\<open>undefined\<close>. Reading a property of
  \<^verbatim>\<open>null\<close> throws. The function is used at the property names of the source only
  (\<^verbatim>\<open>encrypted\<close>, \<^verbatim>\<open>salt\<close>, \<^verbatim>\<open>signature\<close>, \<^verbatim>\<open>_timestamp\<close>, \<^verbatim>\<open>callId\<close>,
  \<^verbatim>\<open>duration\<close>), none of which an array, a string, a number or a boolean has.
\<close>

fun get_prop :: "json \<Rightarrow> string \<Rightarrow> js_error + json option" where
  "get_prop JNull k = Inl (Error (''Cannot read properties of null, reading '' @ k))"
| "get_prop (JObj kvs) k = Inr (map_of kvs k)"
| "get_prop _ k = Inr None"

text \<open>\<^verbatim>\<open>delete v.k\<close>: removes an own property of an object, and does nothing elsewhere.\<close>

fun delete_prop :: "string \<Rightarrow> json \<Rightarrow> json" where
  "delete_prop k (JObj kvs) = JObj (AList.delete k kvs)"
| "delete_prop k v = v"

text \<open>Truthiness of a value read from a request (\<open>None\<close> is \<^verbatim>\<open>undefined\<close>).\<close>

fun truthy :: "json option \<Rightarrow> bool" where
  "truthy None = False"
| "truthy (Some JNull) = False"
| "truthy (Some (JBool b)) = b"
| "truthy (Some (JNum n)) = (n \<noteq> 0)"
| "truthy (Some (JStr s)) = (s \<noteq> [])"
| "truthy (Some (JArr xs)) = True"
| "truthy (Some (JObj kvs)) = True"

text \<open>Decimal digits of an array index, the property name under which a spread copies it.\<close>

fun index_key :: "nat \<Rightarrow> string" where
  "index_key n =
     (if n < 10 then [char_of (48 + n)]
      else index_key (n div 10) @ [char_of (48 + n mod 10)])"

declare index_key.simps [simp del]

text \<open>
  The own enumerable properties an object spread \<^verbatim>\<open>{...v}\<close> copies: those of an object,
  the elements of an array and the characters of a string under their indices, nothing
  of \<^verbatim>\<open>null\<close>, a number or a boolean.
\<close>

fun spread :: "json \<Rightarrow> (string \<times> json) list" where
  "spread (JObj kvs) = kvs"
| "spread (JArr xs) = zip (map index_key [0..<length xs]) xs"
| "spread (JStr s) = zip (map index_key [0..<length s]) (map (\<lambda>c. JStr [c]) s)"
| "spread _ = []"

text \<open>
  An object literal as \<^verbatim>\<open>res.json\<close> serialises it: a property whose value is
  \<^verbatim>\<open>undefined\<close> is left out.
\<close>

fun obj :: "(string \<times> json option) list \<Rightarrow> json" where
  "obj kvs = JObj (concat (map (\<lambda>(k, v). case v of None \<Rightarrow> [] | Some x \<Rightarrow> [(k, x)]) kvs))"

subsection \<open>Buffers: hex and UTF-8\<close>

definition hex_digit :: "nat \<Rightarrow> char" where
  "hex_digit n = (if n < 10 then char_of (48 + n) else char_of (87 + n))"

definition hex_value :: "char \<Rightarrow> nat option" where
  "hex_value c =
     (let n = (of_char c :: nat) in
      if 48 \<le> n \<and> n \<le> 57 then Some (n - 48)
      else if 97 \<le> n \<and> n \<le> 102 then Some (n - 87)
      else if 65 \<le> n \<and> n \<le> 70 then Some (n - 55)
      else None)"

text \<open>\<^verbatim>\<open>buf.toString('hex')\<close>: two lower-case digits a byte.\<close>

definition hex_encode :: "byte list \<Rightarrow> string" where
  "hex_encode bs =
     concat (map (\<lambda>b. [hex_digit (unat (drop_bit 4 b)), hex_digit (unat (b AND 15))]) bs)"

text \<open>
  \<^verbatim>\<open>Buffer.from(s, 'hex')\<close>: decodes pairs of digits and stops, without an error, at the
  first pair that is not hexadecimal or at a last single character.
\<close>

fun hex_decode :: "string \<Rightarrow> byte list" where
  "hex_decode (a # b # cs) =
     (case (hex_value a, hex_value b) of
        (Some h, Some l) \<Rightarrow> of_nat (16 * h + l) # hex_decode cs
      | _ \<Rightarrow> [])"
| "hex_decode _ = []"

text \<open>\<^verbatim>\<open>Buffer.from(s, 'utf8')\<close> on code units below 256: one byte below 128, two above.\<close>

definition utf8_char :: "char \<Rightarrow> byte list" where
  "utf8_char c =
     (let n = (of_char c :: nat) in
      if n < 128 then [of_nat n] else [of_nat (192 + n div 64), of_nat (128 + n mod 64)])"

definition utf8_encode :: "string \<Rightarrow> byte list" where
  "utf8_encode s = concat (map utf8_char s)"

text \<open>\<^verbatim>\<open>s.padEnd(n, c)\<close> with a one-character pad string.\<close>

definition padEnd :: "nat \<Rightarrow> char \<Rightarrow> string \<Rightarrow> string" where
  "padEnd n c s = s @ replicate (n - length s) c"

subsection \<open>The library and the world\<close>

text \<open>A Firestore field: a plain value, or the \<^verbatim>\<open>FieldValue.serverTimestamp()\<close> sentinel.\<close>

datatype field_value = Plain json | ServerTimestamp

type_synonym document = "(string \<times> field_value) list"

text \<open>
  The functions of Node and of the Firestore client that the source calls.
  \<^item> \<open>createHmac alg key data\<close> is the digest of
    \<^verbatim>\<open>crypto.createHmac(alg, key).update(data)\<close>;
  \<^item> \<open>createCipheriv alg key iv\<close> throws or gives the cipher, itself the function from
    the text to \<^verbatim>\<open>update(text, 'utf8', 'hex') + final('hex')\<close>;
  \<^item> \<open>createDecipheriv alg key iv\<close> throws or gives the decipher, the function from
    the hex string to \<^verbatim>\<open>update(hex, 'hex', 'utf8') + final('utf8')\<close>;
  \<^item> \<open>Buffer_from_object\<close> is \<^verbatim>\<open>Buffer.from\<close> on an array or an object;
  \<^item> \<open>coerce_number\<close> is the conversion to a number of a string, an array or an
    object;
  \<^item> \<open>firestore_doc c p\<close> is the error, if any, with which \<^verbatim>\<open>collection(c).doc(p)\<close>
    refuses the path, and \<open>firestore_set c p d\<close> the one with which the write fails.
\<close>

record runtime =
  createHmac :: "string \<Rightarrow> string \<Rightarrow> string \<Rightarrow> byte list"
  pbkdf2Sync :: "string \<Rightarrow> byte list \<Rightarrow> nat \<Rightarrow> nat \<Rightarrow> string \<Rightarrow> byte list"
  createCipheriv :: "string \<Rightarrow> byte list \<Rightarrow> byte list \<Rightarrow> js_error + (string \<Rightarrow> js_error + string)"
  createDecipheriv :: "string \<Rightarrow> byte list \<Rightarrow> byte list \<Rightarrow> js_error + (string \<Rightarrow> js_error + string)"
  JSON_parse :: "string \<Rightarrow> js_error + json"
  JSON_stringify :: "json \<Rightarrow> string"
  Buffer_from_object :: "json \<Rightarrow> js_error + byte list"
  coerce_number :: "json \<Rightarrow> jsnum"
  firestore_doc :: "string \<Rightarrow> string \<Rightarrow> js_error option"
  firestore_set :: "string \<Rightarrow> string \<Rightarrow> document \<Rightarrow> js_error option"

text \<open>The calls to the components that the claims count.\<close>

datatype call =
    CreateHmac string string
  | RandomBytes nat
  | Pbkdf2Sync string "byte list" nat nat string
  | CreateCipheriv string "byte list" "byte list"
  | CreateDecipheriv string "byte list" "byte list"
  | FirestoreSet string string document

text \<open>
  The world a request runs in: the calls made so far, in order, and the Firestore
  documents by collection and path.
\<close>

record world =
  calls :: "call list"
  firestore :: "string \<times> string \<Rightarrow> document option"

text \<open>A computation that may throw and may change the world.\<close>

type_synonym 'a eff = "world \<Rightarrow> (js_error + 'a) \<times> world"

definition ret :: "'a \<Rightarrow> 'a eff" where
  "ret x = (\<lambda>w. (Inr x, w))"

definition throw :: "js_error \<Rightarrow> 'a eff" where
  "throw e = (\<lambda>w. (Inl e, w))"

definition lift :: "js_error + 'a \<Rightarrow> 'a eff" where
  "lift r = (\<lambda>w. (r, w))"

definition perform :: "call \<Rightarrow> unit eff" where
  "perform c = (\<lambda>w. (Inr (), w\<lparr>calls := calls w @ [c]\<rparr>))"

definition and_then :: "'a eff \<Rightarrow> ('a \<Rightarrow> 'b eff) \<Rightarrow> 'b eff" where
  "and_then m f =
     (\<lambda>w. case m w of (Inl e, w') \<Rightarrow> (Inl e, w') | (Inr x, w') \<Rightarrow> f x w')"

text \<open>\<^verbatim>\<open>try { m } catch (error) { return h(error) }\<close> around a body that returns.\<close>

definition catch :: "'a eff \<Rightarrow> (js_error \<Rightarrow> 'a) \<Rightarrow> world \<Rightarrow> 'a \<times> world" where
  "catch m h = (\<lambda>w. case m w of (Inl e, w') \<Rightarrow> (h e, w') | (Inr x, w') \<Rightarrow> (x, w'))"

text \<open>A call of a function that returns and never throws.\<close>

definition returns :: "(world \<Rightarrow> 'a \<times> world) \<Rightarrow> 'a eff" where
  "returns m = (\<lambda>w. case m w of (x, w') \<Rightarrow> (Inr x, w'))"

subsection \<open>Configuration\<close>

text \<open>
  \<^verbatim>\<open>process.env.ENCRYPTION_KEY || '...'\<close> and \<^verbatim>\<open>process.env.ENCRYPTION_IV || '...'\<close>:
  the variable when it is set and not empty, the built-in string otherwise.
\<close>

record config =
  env_ENCRYPTION_KEY :: "string option"
  env_ENCRYPTION_IV :: "string option"

definition or_default :: "string option \<Rightarrow> string \<Rightarrow> string" where
  "or_default v d = (case v of None \<Rightarrow> d | Some s \<Rightarrow> if s = [] then d else s)"

definition ENCRYPTION_KEY :: "config \<Rightarrow> string" where
  "ENCRYPTION_KEY cfg =
     or_default (env_ENCRYPTION_KEY cfg) ''restaurantAI_secret_key_2024_secure_vapi_encryption''"

definition ENCRYPTION_IV :: "config \<Rightarrow> string" where
  "ENCRYPTION_IV cfg =
     or_default (env_ENCRYPTION_IV cfg) ''restaurant_ai_initialization_vector''"

text \<open>
  \<^verbatim>\<open>Buffer.from(ENCRYPTION_IV.padEnd(16, '0').slice(0, 16), 'utf8')\<close>, the expression of
  both \<^verbatim>\<open>decryptPayload\<close> and \<^verbatim>\<open>encryptPayload\<close>.
\<close>

definition ivBuffer :: "config \<Rightarrow> byte list" where
  "ivBuffer cfg = utf8_encode (take 16 (padEnd 16 (CHR ''0'') (ENCRYPTION_IV cfg)))"

subsection \<open>Library calls on request values\<close>

text \<open>
  \<^verbatim>\<open>Buffer.from(v, 'hex')\<close> on a value of a request: a string is decoded, an array or an
  object is the library's business, anything else is a type error.
\<close>

definition Buffer_from_hex :: "runtime \<Rightarrow> json option \<Rightarrow> js_error + byte list" where
  "Buffer_from_hex rt v =
     (case v of
        Some (JStr s) \<Rightarrow> Inr (hex_decode s)
      | Some (JArr xs) \<Rightarrow> Buffer_from_object rt (JArr xs)
      | Some (JObj kvs) \<Rightarrow> Buffer_from_object rt (JObj kvs)
      | _ \<Rightarrow> Inl (Error ''The first argument must be of type string or an instance of Buffer, ArrayBuffer, or Array or an Array-like Object''))"

text \<open>
  The data argument of \<^verbatim>\<open>hmac.update\<close> and \<^verbatim>\<open>decipher.update\<close>: a string (a request
  value is never a buffer), a type error otherwise.
\<close>

definition string_arg :: "json option \<Rightarrow> js_error + string" where
  "string_arg v =
     (case v of
        Some (JStr s) \<Rightarrow> Inr s
      | _ \<Rightarrow> Inl (Error ''The data argument must be of type string or an instance of Buffer, TypedArray, or DataView''))"

text \<open>The conversion to a number that \<^verbatim>\<open>now - payload._timestamp\<close> applies.\<close>

definition ToNumber :: "runtime \<Rightarrow> json option \<Rightarrow> jsnum" where
  "ToNumber rt v =
     (case v of
        None \<Rightarrow> NaN
      | Some JNull \<Rightarrow> Num 0
      | Some (JBool b) \<Rightarrow> Num (if b then 1 else 0)
      | Some (JNum n) \<Rightarrow> Num n
      | Some x \<Rightarrow> coerce_number rt x)"

subsection \<open>decryptPayload\<close>

text \<open>The three objects \<^verbatim>\<open>decryptPayload\<close> returns, by their \<^verbatim>\<open>code\<close>.\<close>

datatype decrypt_result =
    DecryptionSuccess json string
  | ReplayAttackDetected jsnum int
  | DecryptionError string

fun result_success :: "decrypt_result \<Rightarrow> bool" where
  "result_success (DecryptionSuccess d t) = True"
| "result_success _ = False"

fun result_code :: "decrypt_result \<Rightarrow> string" where
  "result_code (DecryptionSuccess d t) = ''DECRYPTION_SUCCESS''"
| "result_code (ReplayAttackDetected a m) = ''REPLAY_ATTACK_DETECTED''"
| "result_code (DecryptionError e) = ''DECRYPTION_ERROR''"

fun result_error :: "decrypt_result \<Rightarrow> string option" where
  "result_error (DecryptionSuccess d t) = None"
| "result_error (ReplayAttackDetected a m) = Some ''Payload has expired - Possible replay attack''"
| "result_error (DecryptionError e) = Some e"

text \<open>
  Lines 18 to 34: the destructuring of the envelope and the signature check. The digest
  is computed over \<^verbatim>\<open>encrypted\<close> and compared; both outcomes of the comparison only
  write to the console, so both continue.
\<close>

definition verify_signature :: "config \<Rightarrow> runtime \<Rightarrow> json option \<Rightarrow> json option \<Rightarrow> unit eff" where
  "verify_signature cfg rt encrypted signature =
     (if truthy signature then
        and_then (perform (CreateHmac ''sha256'' (ENCRYPTION_KEY cfg))) (\<lambda>_.
        and_then (lift (string_arg encrypted)) (\<lambda>data.
          let expectedSignature = hex_encode (createHmac rt ''sha256'' (ENCRYPTION_KEY cfg) data)
          in if signature \<noteq> Some (JStr expectedSignature) then ret () else ret ()))
      else ret ())"

text \<open>
  Lines 36 to 57: the key is derived from the secret and the salt of the envelope, the
  vector comes from the configuration, and the plaintext is deciphered and parsed.
\<close>

definition derive_and_decrypt :: "config \<Rightarrow> runtime \<Rightarrow> json option \<Rightarrow> json option \<Rightarrow> json eff" where
  "derive_and_decrypt cfg rt encrypted salt =
     and_then (lift (Buffer_from_hex rt salt)) (\<lambda>saltBuffer.
     and_then (perform (Pbkdf2Sync (ENCRYPTION_KEY cfg) saltBuffer 1000 32 ''sha256'')) (\<lambda>_.
       let derivedKey = pbkdf2Sync rt (ENCRYPTION_KEY cfg) saltBuffer 1000 32 ''sha256''
       in
     and_then (perform (CreateDecipheriv ''aes-256-cbc'' derivedKey (ivBuffer cfg))) (\<lambda>_.
     and_then (lift (createDecipheriv rt ''aes-256-cbc'' derivedKey (ivBuffer cfg))) (\<lambda>decipher.
     and_then (lift (string_arg encrypted)) (\<lambda>ciphertext.
     and_then (lift (decipher ciphertext)) (\<lambda>decrypted.
       lift (JSON_parse rt decrypted)))))))"

text \<open>Lines 18 to 57: from the envelope to the parsed plaintext.\<close>

definition decrypt_and_parse :: "config \<Rightarrow> runtime \<Rightarrow> json \<Rightarrow> json eff" where
  "decrypt_and_parse cfg rt encryptedData =
     and_then (lift (get_prop encryptedData ''encrypted'')) (\<lambda>encrypted.
     and_then (lift (get_prop encryptedData ''salt'')) (\<lambda>salt.
     and_then (lift (get_prop encryptedData ''signature'')) (\<lambda>signature.
     and_then (verify_signature cfg rt encrypted signature) (\<lambda>_.
       derive_and_decrypt cfg rt encrypted salt))))"

text \<open>Lines 59 to 86: the freshness check and the removal of the internal fields.\<close>

definition check_freshness :: "runtime \<Rightarrow> int \<Rightarrow> string \<Rightarrow> json \<Rightarrow> decrypt_result eff" where
  "check_freshness rt now isoTime payload =
     and_then (lift (get_prop payload ''_timestamp'')) (\<lambda>ts.
       let age = js_minus (Num now) (ToNumber rt ts);
           maxAge = 5 * 60 * 1000
       in if js_greater age (Num maxAge) then ret (ReplayAttackDetected age maxAge)
          else ret (DecryptionSuccess
                      (delete_prop ''_version'' (delete_prop ''_timestamp'' payload)) isoTime))"

text \<open>
  \<^verbatim>\<open>decryptPayload(encryptedData)\<close>. \<open>now\<close> is what \<^verbatim>\<open>Date.now()\<close> returns at line 60
  and \<open>isoTime\<close> what \<^verbatim>\<open>new Date().toISOString()\<close> returns at line 85. The whole body is
  in a \<^verbatim>\<open>try\<close> whose handler returns the third object.
\<close>

definition decryptPayload ::
  "config \<Rightarrow> runtime \<Rightarrow> int \<Rightarrow> string \<Rightarrow> json \<Rightarrow> world \<Rightarrow> decrypt_result \<times> world" where
  "decryptPayload cfg rt now isoTime encryptedData =
     catch (and_then (decrypt_and_parse cfg rt encryptedData) (check_freshness rt now isoTime))
       (\<lambda>error. DecryptionError (message error))"

subsection \<open>encryptPayload\<close>

text \<open>
  \<^verbatim>\<open>encryptPayload(payload)\<close>. \<open>timestamp\<close> is what \<^verbatim>\<open>Date.now()\<close> returns at line 104
  and \<open>salt\<close> what \<^verbatim>\<open>crypto.randomBytes(16)\<close> returns at line 116. The object literal
  spreads the payload and then sets the two internal fields, in this order.
\<close>

definition dataWithTimestamp :: "json \<Rightarrow> int \<Rightarrow> json" where
  "dataWithTimestamp payload timestamp =
     JObj (AList.update ''_version'' (JStr ''1.0'')
            (AList.update ''_timestamp'' (JNum timestamp) (spread payload)))"

definition encryptPayload_try :: "config \<Rightarrow> runtime \<Rightarrow> int \<Rightarrow> byte list \<Rightarrow> json \<Rightarrow> json eff" where
  "encryptPayload_try cfg rt timestamp salt payload =
     (let jsonString = JSON_stringify rt (dataWithTimestamp payload timestamp) in
      and_then (perform (RandomBytes 16)) (\<lambda>_.
      and_then (perform (Pbkdf2Sync (ENCRYPTION_KEY cfg) salt 1000 32 ''sha256'')) (\<lambda>_.
        let derivedKey = pbkdf2Sync rt (ENCRYPTION_KEY cfg) salt 1000 32 ''sha256''
        in
      and_then (perform (CreateCipheriv ''aes-256-cbc'' derivedKey (ivBuffer cfg))) (\<lambda>_.
      and_then (lift (createCipheriv rt ''aes-256-cbc'' derivedKey (ivBuffer cfg))) (\<lambda>cipher.
      and_then (lift (cipher jsonString)) (\<lambda>encrypted.
      and_then (perform (CreateHmac ''sha256'' (ENCRYPTION_KEY cfg))) (\<lambda>_.
        let signature = hex_encode (createHmac rt ''sha256'' (ENCRYPTION_KEY cfg) encrypted)
        in ret (JObj [(''encrypted'', JStr encrypted),
                      (''salt'', JStr (hex_encode salt)),
                      (''signature'', JStr signature),
                      (''algorithm'', JStr ''AES-256-CBC''),
                      (''timestamp'', JNum timestamp),
                      (''success'', JBool True)]))))))))"

definition encryptPayload ::
  "config \<Rightarrow> runtime \<Rightarrow> int \<Rightarrow> byte list \<Rightarrow> json \<Rightarrow> world \<Rightarrow> json \<times> world" where
  "encryptPayload cfg rt timestamp salt payload =
     catch (encryptPayload_try cfg rt timestamp salt payload)
       (\<lambda>error. JObj [(''success'', JBool False), (''error'', JStr (message error))])"

subsection \<open>saveVapiCallLog\<close>

record response =
  status :: nat
  body :: json

text \<open>
  The values the clock gives during one request: \<^verbatim>\<open>new Date().toISOString()\<close> at line
  442, \<^verbatim>\<open>Date.now()\<close> and \<^verbatim>\<open>new Date().toISOString()\<close> inside \<^verbatim>\<open>decryptPayload\<close>, and
  \<^verbatim>\<open>new Date().toISOString()\<close> in the handler at line 533.
\<close>

record clock =
  iso_entry :: string
  date_now :: int
  iso_decrypted :: string
  iso_catch :: string

text \<open>The object written at lines 501 to 511.\<close>

definition callLogDocument :: "json \<Rightarrow> string \<Rightarrow> document" where
  "callLogDocument payload timestamp =
     AList.update ''encryptionMetadata''
       (Plain (JObj [(''encrypted'', JBool True),
                     (''algorithm'', JStr ''AES-256-CBC''),
                     (''verified'', JBool True),
                     (''decryptedAt'', JStr timestamp)]))
       (AList.update ''savedAt'' (Plain (JStr timestamp))
         (AList.update ''createdAt'' ServerTimestamp
           (map (\<lambda>(k, v). (k, Plain v)) (spread payload))))"

text \<open>
  \<^verbatim>\<open>await db.collection(c).doc(id).set(d)\<close>: \<^verbatim>\<open>doc\<close> refuses what is not a string, and
  a path the client rejects; then the write is made. It fails, or it leaves \<open>d\<close> as the
  document at that path, whatever was there: \<^verbatim>\<open>set\<close> is called without a merge option.
\<close>

definition write_document :: "string \<Rightarrow> string \<Rightarrow> document \<Rightarrow> unit eff" where
  "write_document c p d = (\<lambda>w. (Inr (), w\<lparr>firestore := (firestore w)((c, p) \<mapsto> d)\<rparr>))"

definition doc_set :: "runtime \<Rightarrow> string \<Rightarrow> json option \<Rightarrow> document \<Rightarrow> unit eff" where
  "doc_set rt c docId d =
     (case docId of
        Some (JStr p) \<Rightarrow>
          (case firestore_doc rt c p of
             Some e \<Rightarrow> throw e
           | None \<Rightarrow>
               and_then (perform (FirestoreSet c p d)) (\<lambda>_.
                 case firestore_set rt c p d of
                   Some e \<Rightarrow> throw e
                 | None \<Rightarrow> write_document c p d))
      | _ \<Rightarrow> throw (Error ''Value for argument documentPath is not a valid resource path. Path must be a non-empty string.''))"

text \<open>Lines 451 to 459: the response to a request whose \<^verbatim>\<open>encrypted\<close> is falsy.\<close>

definition unencrypted :: "string \<Rightarrow> response" where
  "unencrypted timestamp =
     \<lparr>status = 400,
      body = JObj [(''error'', JStr ''Bad Request''),
                   (''message'', JStr ''Payload must be encrypted using AES-256-CBC''),
                   (''code'', JStr ''UNENCRYPTED_DATA''),
                   (''timestamp'', JStr timestamp)]\<rparr>"

text \<open>Lines 465 to 476: the response to a failed decryption.\<close>

definition decryption_failed :: "string \<Rightarrow> decrypt_result \<Rightarrow> response" where
  "decryption_failed timestamp decryptionResult =
     (let statusCode =
            (if result_code decryptionResult = ''SIGNATURE_MISMATCH'' then 401
             else if result_code decryptionResult = ''REPLAY_ATTACK_DETECTED'' then 403
             else 400)
      in \<lparr>status = statusCode,
          body = obj [(''error'', Some (JStr ''Decryption Failed'')),
                      (''message'', map_option JStr (result_error decryptionResult)),
                      (''code'', Some (JStr (result_code decryptionResult))),
                      (''timestamp'', Some (JStr timestamp))]\<rparr>)"

text \<open>Lines 488 to 496: the response to a payload without a \<^verbatim>\<open>callId\<close>.\<close>

definition missing_call_id :: "string \<Rightarrow> response" where
  "missing_call_id timestamp =
     \<lparr>status = 400,
      body = JObj [(''error'', JStr ''Bad Request''),
                   (''message'', JStr ''Missing required field: callId''),
                   (''code'', JStr ''MISSING_CALL_ID''),
                   (''timestamp'', JStr timestamp)]\<rparr>"

text \<open>Lines 518 to 530: the response once the document is written.\<close>

definition saved :: "string \<Rightarrow> json option \<Rightarrow> json option \<Rightarrow> response" where
  "saved timestamp callId duration =
     \<lparr>status = 200,
      body = JObj [(''success'', JBool True),
                   (''code'', JStr ''CALL_LOG_SAVED_ENCRYPTED''),
                   (''message'', JStr ''Encrypted call log stored securely in Firestore''),
                   (''data'', obj [(''callId'', callId),
                                   (''duration'', duration),
                                   (''encrypted'', Some (JBool True)),
                                   (''encryptionAlgorithm'', Some (JStr ''AES-256-CBC'')),
                                   (''savedAt'', Some (JStr timestamp))]),
                   (''timestamp'', JStr timestamp)]\<rparr>"

text \<open>
  Lines 465 to 530: what the handler does with the result of \<^verbatim>\<open>decryptPayload\<close>. A
  result that is not a success is answered at once; the payload of a success is
  validated and written under its \<^verbatim>\<open>callId\<close>.
\<close>

definition after_decryption :: "runtime \<Rightarrow> string \<Rightarrow> decrypt_result \<Rightarrow> response eff" where
  "after_decryption rt timestamp decryptionResult =
     (case decryptionResult of
        DecryptionSuccess payload decryptionTime \<Rightarrow>
          and_then (lift (get_prop payload ''callId'')) (\<lambda>callId.
          and_then (lift (get_prop payload ''duration'')) (\<lambda>duration.
            if \<not> truthy callId then ret (missing_call_id timestamp)
            else
              and_then (doc_set rt ''vapiCallLogs'' callId (callLogDocument payload timestamp))
                (\<lambda>_. ret (saved timestamp callId duration))))
      | _ \<Rightarrow> ret (decryption_failed timestamp decryptionResult))"

text \<open>Lines 448 to 530, the body of the \<^verbatim>\<open>try\<close>.\<close>

definition saveVapiCallLog_try :: "config \<Rightarrow> runtime \<Rightarrow> clock \<Rightarrow> json \<Rightarrow> response eff" where
  "saveVapiCallLog_try cfg rt clk requestBody =
     and_then (lift (get_prop requestBody ''encrypted'')) (\<lambda>encrypted.
       if \<not> truthy encrypted then ret (unencrypted (iso_entry clk))
       else
         and_then (returns (decryptPayload cfg rt (date_now clk) (iso_decrypted clk) requestBody))
           (after_decryption rt (iso_entry clk)))"

text \<open>Lines 532 to 547: the response of the handler of the outer \<^verbatim>\<open>try\<close>.\<close>

definition server_error :: "string \<Rightarrow> js_error \<Rightarrow> response" where
  "server_error timestamp error =
     \<lparr>status = 500,
      body = JObj [(''error'', JStr ''Internal Server Error''),
                   (''message'', JStr ''Failed to process encrypted call log''),
                   (''code'', JStr ''SERVER_ERROR''),
                   (''details'', JStr (message error)),
                   (''timestamp'', JStr timestamp)]\<rparr>"

text \<open>
  \<^verbatim>\<open>saveVapiCallLog(req, res)\<close> on \<^verbatim>\<open>req.body\<close>: the response sent, and the world
  after it.
\<close>

definition saveVapiCallLog ::
  "config \<Rightarrow> runtime \<Rightarrow> clock \<Rightarrow> json \<Rightarrow> world \<Rightarrow> response \<times> world" where
  "saveVapiCallLog cfg rt clk requestBody =
     catch (saveVapiCallLog_try cfg rt clk requestBody) (server_error (iso_catch clk))"

text \<open>The \<^verbatim>\<open>code\<close> of a response.\<close>

definition response_code :: "response \<Rightarrow> json option" where
  "response_code r = (case body r of JObj kvs \<Rightarrow> map_of kvs ''code'' | _ \<Rightarrow> None)"

subsection \<open>Counting calls\<close>

text \<open>The calls made between two worlds, and the component each call belongs to.\<close>

definition calls_during :: "world \<Rightarrow> world \<Rightarrow> call list" where
  "calls_during w w' = drop (length (calls w)) (calls w')"

fun is_key_derivation :: "call \<Rightarrow> bool" where
  "is_key_derivation (Pbkdf2Sync password salt iterations keylen digest) = True"
| "is_key_derivation _ = False"

fun is_cipher :: "call \<Rightarrow> bool" where
  "is_cipher (CreateCipheriv alg key iv) = True"
| "is_cipher (CreateDecipheriv alg key iv) = True"
| "is_cipher _ = False"

fun is_persistence :: "call \<Rightarrow> bool" where
  "is_persistence (FirestoreSet c p d) = True"
| "is_persistence _ = False"

fun is_signature :: "call \<Rightarrow> bool" where
  "is_signature (CreateHmac alg key) = True"
| "is_signature _ = False"

text \<open>
  A computation that only appends calls satisfying \<open>P\<close> to the log: its result and the
  calls it makes are the same in every world, and it leaves the documents alone.
\<close>

definition logs_only :: "(call \<Rightarrow> bool) \<Rightarrow> 'a eff \<Rightarrow> bool" where
  "logs_only P m =
     (\<exists>r cs. (\<forall>c\<in>set cs. P c) \<and> (\<forall>w. m w = (r, w\<lparr>calls := calls w @ cs\<rparr>)))"

text \<open>
  A computation whose result and calls are the same in every world, and which changes
  the documents without reading them.
\<close>

definition uniform :: "'a eff \<Rightarrow> bool" where
  "uniform m =
     (\<exists>r cs g. \<forall>w. m w = (r, w\<lparr>calls := calls w @ cs, firestore := g (firestore w)\<rparr>))"

subsection \<open>Contracts of the library\<close>

text \<open>
  The cipher and the decipher made with the same algorithm, key and vector invert each
  other on a text: both are created, the text is encrypted, and the decipher gives the
  text back.
\<close>

definition cipher_inverts :: "runtime \<Rightarrow> byte list \<Rightarrow> byte list \<Rightarrow> string \<Rightarrow> bool" where
  "cipher_inverts rt key iv text =
     (case createCipheriv rt ''aes-256-cbc'' key iv of
        Inl e \<Rightarrow> False
      | Inr cipher \<Rightarrow>
          (case cipher text of
             Inl e \<Rightarrow> False
           | Inr encrypted \<Rightarrow>
               (case createDecipheriv rt ''aes-256-cbc'' key iv of
                  Inl e \<Rightarrow> False
                | Inr decipher \<Rightarrow> decipher encrypted = Inr text)))"

text \<open>A value is JSON-serializable: \<^verbatim>\<open>JSON.parse(JSON.stringify(v))\<close> gives it back.\<close>

definition json_roundtrips :: "runtime \<Rightarrow> json \<Rightarrow> bool" where
  "json_roundtrips rt v = (JSON_parse rt (JSON_stringify rt v) = Inr v)"

subsection \<open>A test double of the library\<close>

text \<open>
  A small library to run the functions on: a serialiser of JSON values and a parser that
  knows the documents it is given; a cipher that tags the reversed text with the first
  bytes of its key and refuses a key that is not 32 bytes, a vector that is not 16 and a
  text under another tag; a key derivation that pads or cuts the salt.
\<close>

definition quote :: "string \<Rightarrow> string" where
  "quote s =
     CHR 0x22 #
     concat (map (\<lambda>c. if c = CHR 0x22 \<or> c = CHR 0x5C then [CHR 0x5C, c] else [c]) s) @
     [CHR 0x22]"

fun commas :: "string list \<Rightarrow> string" where
  "commas [] = []"
| "commas [x] = x"
| "commas (x # y # zs) = x @ '','' @ commas (y # zs)"

fun json_text :: "json \<Rightarrow> string" where
  "json_text JNull = ''null''"
| "json_text (JBool b) = (if b then ''true'' else ''false'')"
| "json_text (JNum n) = (if n < 0 then ''-'' @ index_key (nat (- n)) else index_key (nat n))"
| "json_text (JStr s) = quote s"
| "json_text (JArr xs) = ''['' @ commas (map json_text xs) @ '']''"
| "json_text (JObj kvs) =
     ''{'' @ commas (map (\<lambda>kv. quote (fst kv) @ '':'' @ json_text (snd kv)) kvs) @ ''}''"

definition parse_known :: "json list \<Rightarrow> string \<Rightarrow> js_error + json" where
  "parse_known known s =
     (case find (\<lambda>v. json_text v = s) known of
        Some v \<Rightarrow> Inr v
      | None \<Rightarrow> Inl (Error ''Unexpected token in JSON''))"

definition test_encipher :: "byte list \<Rightarrow> string \<Rightarrow> js_error + string" where
  "test_encipher key s = Inr (hex_encode (take 2 key) @ rev s)"

definition test_decipher :: "byte list \<Rightarrow> string \<Rightarrow> js_error + string" where
  "test_decipher key s =
     (if take 4 s = hex_encode (take 2 key) then Inr (rev (drop 4 s))
      else Inl (Error ''bad decrypt''))"

definition test_cipher ::
  "bool \<Rightarrow> string \<Rightarrow> byte list \<Rightarrow> byte list \<Rightarrow> js_error + (string \<Rightarrow> js_error + string)" where
  "test_cipher decrypting alg key iv =
     (if alg \<noteq> ''aes-256-cbc'' then Inl (Error ''Unknown cipher'')
      else if length key \<noteq> 32 then Inl (Error ''Invalid key length'')
      else if length iv \<noteq> 16 then Inl (Error ''Invalid initialization vector'')
      else if decrypting then Inr (test_decipher key)
      else Inr (test_encipher key))"

definition test_runtime :: "json list \<Rightarrow> runtime" where
  "test_runtime known =
     \<lparr>createHmac = (\<lambda>alg key data. [of_nat (length key), of_nat (length data)]),
      pbkdf2Sync = (\<lambda>password salt iterations keylen digest.
                      take keylen (salt @ replicate keylen 0)),
      createCipheriv = test_cipher False,
      createDecipheriv = test_cipher True,
      JSON_parse = parse_known known,
      JSON_stringify = json_text,
      Buffer_from_object = (\<lambda>v. Inl (Error ''The first argument must be of type string'')),
      coerce_number = (\<lambda>v. NaN),
      firestore_doc = (\<lambda>c p. None),
      firestore_set = (\<lambda>c p d. None)\<rparr>"

text \<open>
  The scenario of the specification: the secret \<^verbatim>\<open>test-secret\<close>, a salt of 16 zero
  bytes, and the payload \<^verbatim>\<open>{"callId":"call_1","duration":42}\<close>, encrypted at time 1000.
\<close>

definition test_config :: config where
  "test_config = \<lparr>env_ENCRYPTION_KEY = Some ''test-secret'', env_ENCRYPTION_IV = None\<rparr>"

definition test_payload :: json where
  "test_payload = JObj [(''callId'', JStr ''call_1''), (''duration'', JNum 42)]"

definition test_salt :: "byte list" where
  "test_salt = replicate 16 0"

definition test_world :: world where
  "test_world = \<lparr>calls = [], firestore = Map.empty\<rparr>"

definition test_rt :: runtime where
  "test_rt = test_runtime [dataWithTimestamp test_payload 1000]"

definition test_envelope :: json where
  "test_envelope = fst (encryptPayload test_config test_rt 1000 test_salt test_payload test_world)"

definition test_ciphertext :: string where
  "test_ciphertext =
     hex_encode (take 2 test_salt) @ rev (json_text (dataWithTimestamp test_payload 1000))"

definition test_clock :: "int \<Rightarrow> clock" where
  "test_clock now =
     \<lparr>iso_entry = ''2026-01-01T00:00:00.000Z'', date_now = now,
      iso_decrypted = ''2026-01-01T00:00:00.001Z'', iso_catch = ''2026-01-01T00:00:00.002Z''\<rparr>"

text \<open>
  An envelope made by another encoder, one that sets no \<^verbatim>\<open>_timestamp\<close>: the payload
  itself as plaintext, with no signature, and the library that parses it.
\<close>

definition bare_rt :: runtime where
  "bare_rt = test_runtime [test_payload]"

definition bare_envelope :: json where
  "bare_envelope =
     JObj [(''encrypted'', JStr (hex_encode (take 2 test_salt) @ rev (json_text test_payload))),
           (''salt'', JStr (hex_encode test_salt))]"

text \<open>
  A second call log under the same \<^verbatim>\<open>callId\<close>, encrypted at time 5000, and the library
  that parses both plaintexts.
\<close>

definition second_payload :: json where
  "second_payload = JObj [(''callId'', JStr ''call_1''), (''duration'', JNum 99)]"

definition upsert_rt :: runtime where
  "upsert_rt =
     test_runtime [dataWithTimestamp test_payload 1000, dataWithTimestamp second_payload 5000]"

definition first_envelope :: json where
  "first_envelope = fst (encryptPayload test_config upsert_rt 1000 test_salt test_payload test_world)"

definition second_envelope :: json where
  "second_envelope =
     fst (encryptPayload test_config upsert_rt 5000 test_salt second_payload test_world)"

text \<open>
  Envelopes that fail: one whose salt is not the one of the encryption, so that the key
  is another; one whose plaintext is not JSON; one with no salt; and the envelope of the
  handler's documentation, with a boolean \<^verbatim>\<open>encrypted\<close> and the ciphertext under
  \<^verbatim>\<open>encryptedData\<close>.
\<close>

definition wrong_salt_envelope :: json where
  "wrong_salt_envelope =
     JObj (AList.update ''salt'' (JStr ''ff000000000000000000000000000000'')
            (spread test_envelope))"

definition garbage_envelope :: json where
  "garbage_envelope =
     JObj [(''encrypted'', JStr (hex_encode (take 2 test_salt) @ rev ''not json at all'')),
           (''salt'', JStr (hex_encode test_salt))]"

definition saltless_envelope :: json where
  "saltless_envelope = JObj (AList.delete ''salt'' (spread test_envelope))"

definition documented_envelope :: "string \<Rightarrow> string \<Rightarrow> string \<Rightarrow> json" where
  "documented_envelope ciphertext salt signature =
     JObj [(''encrypted'', JBool True),
           (''encryptedData'', JStr ciphertext),
           (''salt'', JStr salt),
           (''signature'', JStr signature)]"

text \<open>A configuration whose \<^verbatim>\<open>ENCRYPTION_IV\<close> is the one character U+00E9.\<close>

definition accented_config :: config where
  "accented_config = \<lparr>env_ENCRYPTION_KEY = None, env_ENCRYPTION_IV = Some [CHR 0xE9]\<rparr>"

subsection \<open>Effects: basic facts\<close>

lemmas eff_defs = and_then_def ret_def throw_def lift_def perform_def catch_def returns_def

lemma logs_only_ret: "logs_only P (ret x)"
  unfolding logs_only_def ret_def
  by (rule exI [of _ "Inr x"], rule exI [of _ "[]"]) simp

lemma logs_only_throw: "logs_only P (throw e)"
  unfolding logs_only_def throw_def
  by (rule exI [of _ "Inl e"], rule exI [of _ "[]"]) simp

lemma logs_only_lift: "logs_only P (lift r)"
  unfolding logs_only_def lift_def
  by (rule exI [of _ r], rule exI [of _ "[]"]) simp

lemma logs_only_perform: "P c \<Longrightarrow> logs_only P (perform c)"
  unfolding logs_only_def perform_def
  by (rule exI [of _ "Inr ()"], rule exI [of _ "[c]"]) simp

lemma logs_only_and_then:
  assumes m: "logs_only P m" and f: "\<And>x. logs_only P (f x)"
  shows "logs_only P (and_then m f)"
proof -
  from m obtain r cs where cs: "\<forall>c\<in>set cs. P c"
    and run: "\<And>w. m w = (r, w\<lparr>calls := calls w @ cs\<rparr>)"
    unfolding logs_only_def by blast
  show ?thesis
  proof (cases r)
    case (Inl e)
    have "\<forall>w. and_then m f w = (Inl e, w\<lparr>calls := calls w @ cs\<rparr>)"
      by (simp add: and_then_def run Inl)
    with cs show ?thesis unfolding logs_only_def by blast
  next
    case (Inr x)
    from f [of x] obtain r' cs' where cs': "\<forall>c\<in>set cs'. P c"
      and run': "\<And>w. f x w = (r', w\<lparr>calls := calls w @ cs'\<rparr>)"
      unfolding logs_only_def by blast
    have "\<forall>w. and_then m f w = (r', w\<lparr>calls := calls w @ (cs @ cs')\<rparr>)"
      by (simp add: and_then_def run Inr run')
    moreover have "\<forall>c\<in>set (cs @ cs'). P c"
      using cs cs' by auto
    ultimately show ?thesis unfolding logs_only_def by blast
  qed
qed

lemma logs_only_returns_catch:
  assumes "logs_only P m"
  shows "logs_only P (returns (catch m h))"
proof -
  from assms obtain r cs where cs: "\<forall>c\<in>set cs. P c"
    and run: "\<And>w. m w = (r, w\<lparr>calls := calls w @ cs\<rparr>)"
    unfolding logs_only_def by blast
  have "\<forall>w. returns (catch m h) w =
          (Inr (case r of Inl e \<Rightarrow> h e | Inr x \<Rightarrow> x), w\<lparr>calls := calls w @ cs\<rparr>)"
    by (simp add: returns_def catch_def run split: sum.splits)
  with cs show ?thesis unfolding logs_only_def by blast
qed

lemmas logs_only_intros = logs_only_ret logs_only_throw logs_only_lift logs_only_perform
  logs_only_and_then

lemma logs_only_verify_signature:
  "logs_only (\<lambda>c. \<not> is_persistence c) (verify_signature cfg rt encrypted signature)"
  unfolding verify_signature_def Let_def
  by (auto intro!: logs_only_intros)

lemma logs_only_derive_and_decrypt:
  "logs_only (\<lambda>c. \<not> is_persistence c) (derive_and_decrypt cfg rt encrypted salt)"
  unfolding derive_and_decrypt_def Let_def
  by (intro logs_only_intros) simp_all

lemma logs_only_decrypt_and_parse:
  "logs_only (\<lambda>c. \<not> is_persistence c) (decrypt_and_parse cfg rt env)"
  unfolding decrypt_and_parse_def
  by (intro logs_only_intros logs_only_verify_signature logs_only_derive_and_decrypt)

lemma logs_only_check_freshness:
  "logs_only P (check_freshness rt now t payload)"
  unfolding check_freshness_def Let_def
  by (auto intro!: logs_only_intros)

lemma logs_only_decryptPayload:
  "logs_only (\<lambda>c. \<not> is_persistence c) (returns (decryptPayload cfg rt now t env))"
  unfolding decryptPayload_def
  by (intro logs_only_returns_catch logs_only_intros logs_only_decrypt_and_parse
        logs_only_check_freshness)

text \<open>What a computation confined to the log leaves alone.\<close>

lemma logs_only_frame:
  assumes "logs_only P m" and "m w = (r, w')"
  shows "firestore w' = firestore w"
    and "\<forall>c\<in>set (calls_during w w'). P c"
    and "fst (m v) = r"
    and "calls_during v (snd (m v)) = calls_during w w'"
proof -
  from assms(1) obtain r0 cs where cs: "\<forall>c\<in>set cs. P c"
    and run: "\<And>w. m w = (r0, w\<lparr>calls := calls w @ cs\<rparr>)"
    unfolding logs_only_def by blast
  from run [of w] assms(2) have r: "r = r0" and w': "w' = w\<lparr>calls := calls w @ cs\<rparr>"
    by simp_all
  show "firestore w' = firestore w" by (simp add: w')
  show "\<forall>c\<in>set (calls_during w w'). P c" using cs by (simp add: w' calls_during_def)
  show "fst (m v) = r" by (simp add: run r)
  show "calls_during v (snd (m v)) = calls_during w w'"
    by (simp add: run w' calls_during_def)
qed

lemma decryptPayload_frame:
  assumes "decryptPayload cfg rt now t env w = (r, w')"
  shows "firestore w' = firestore w"
    and "\<forall>c\<in>set (calls_during w w'). \<not> is_persistence c"
    and "fst (decryptPayload cfg rt now t env v) = r"
proof -
  have run: "returns (decryptPayload cfg rt now t env) w = (Inr r, w')"
    using assms by (simp add: returns_def)
  note frame = logs_only_frame [OF logs_only_decryptPayload run]
  show "firestore w' = firestore w" by (rule frame(1))
  show "\<forall>c\<in>set (calls_during w w'). \<not> is_persistence c" by (rule frame(2))
  from frame(3) [of v] show "fst (decryptPayload cfg rt now t env v) = r"
    by (simp add: returns_def split: prod.splits)
qed

lemma test_clock_simps [simp]:
  "date_now (test_clock n) = n"
  "iso_entry (test_clock n) = ''2026-01-01T00:00:00.000Z''"
  "iso_decrypted (test_clock n) = ''2026-01-01T00:00:00.001Z''"
  "iso_catch (test_clock n) = ''2026-01-01T00:00:00.002Z''"
  by (simp_all add: test_clock_def)

subsection \<open>Hex strings\<close>

lemma hex_value_digit: "n < 16 \<Longrightarrow> hex_value (hex_digit n) = Some n"
  by (auto simp: hex_value_def hex_digit_def Let_def)

lemma unat_high: "unat (drop_bit 4 (b :: byte)) = unat b div 16"
  by (simp add: drop_bit_eq_div unat_div)

lemma unat_low: "unat ((b :: byte) AND 15) = unat b mod 16"
proof -
  have "b AND 15 = take_bit 4 b"
    by (simp add: take_bit_eq_mask mask_eq_exp_minus_1)
  then show ?thesis
    by (simp add: take_bit_eq_mod unat_mod)
qed

lemma byte_roundtrip: "of_nat (16 * unat (drop_bit 4 b) + unat (b AND 15)) = (b :: byte)"
  by (simp add: unat_high unat_low)

lemma hex_decode_encode [simp]: "hex_decode (hex_encode bs) = bs"
proof (induction bs)
  case Nil
  then show ?case by (simp add: hex_encode_def)
next
  case (Cons b bs)
  have h: "unat (drop_bit 4 b) < 16" using unat_high[of b] unsigned_less[of b, where 'a=nat] by simp
  have l: "unat (b AND 15) < 16" by (simp add: unat_low)
  from Cons show ?case
    using byte_roundtrip[of b] by (simp add: hex_encode_def hex_value_digit h l)
qed

subsection \<open>Round trip\<close>

lemma strip_internal_fields:
  assumes "''_timestamp'' \<notin> fst ` set kvs" and "''_version'' \<notin> fst ` set kvs"
  shows "delete_prop ''_version'' (delete_prop ''_timestamp'' (dataWithTimestamp (JObj kvs) t)) = JObj kvs"
  using assms
  by (simp add: dataWithTimestamp_def delete_update delete_update_same delete_id delete_twist)

lemma timestamp_of_dataWithTimestamp:
  "get_prop (dataWithTimestamp payload t) ''_timestamp'' = Inr (Some (JNum t))"
  by (simp add: dataWithTimestamp_def update_conv')

lemma encryptPayload_envelope:
  assumes "createCipheriv rt ''aes-256-cbc'' (pbkdf2Sync rt (ENCRYPTION_KEY cfg) salt 1000 32 ''sha256'') (ivBuffer cfg) = Inr cipher"
    and "cipher (JSON_stringify rt (dataWithTimestamp payload t)) = Inr encrypted"
  shows "fst (encryptPayload cfg rt t salt payload w) =
           JObj [(''encrypted'', JStr encrypted),
                 (''salt'', JStr (hex_encode salt)),
                 (''signature'', JStr (hex_encode (createHmac rt ''sha256'' (ENCRYPTION_KEY cfg) encrypted))),
                 (''algorithm'', JStr ''AES-256-CBC''),
                 (''timestamp'', JNum t),
                 (''success'', JBool True)]"
  using assms by (simp add: encryptPayload_def encryptPayload_try_def Let_def eff_defs)

text \<open>
  Claim C1 (round trip). Let the payload be an object with no \<^verbatim>\<open>_timestamp\<close> and no
  \<^verbatim>\<open>_version\<close> key, JSON-serializable once the two internal fields are added, and let
  the library's decipher invert its cipher under the derived key and the configured
  vector. Then the envelope that \<^verbatim>\<open>encryptPayload\<close> returns at time \<open>t0\<close>, given to
  \<^verbatim>\<open>decryptPayload\<close> at a time \<open>t1\<close> at most 300000 ms later, comes back as a success
  whose data is the payload itself: the business fields as they were, and neither
  internal field.
\<close>

theorem encrypt_decrypt_roundtrip:
  assumes no_ts: "''_timestamp'' \<notin> fst ` set kvs"
    and no_version: "''_version'' \<notin> fst ` set kvs"
    and cipher: "cipher_inverts rt (pbkdf2Sync rt (ENCRYPTION_KEY cfg) salt 1000 32 ''sha256'')
                   (ivBuffer cfg) (JSON_stringify rt (dataWithTimestamp (JObj kvs) t0))"
    and json: "json_roundtrips rt (dataWithTimestamp (JObj kvs) t0)"
    and fresh: "t1 - t0 \<le> 300000"
  shows "fst (decryptPayload cfg rt t1 isoTime
                (fst (encryptPayload cfg rt t0 salt (JObj kvs) w)) w') =
           DecryptionSuccess (JObj kvs) isoTime"
proof -
  let ?key = "pbkdf2Sync rt (ENCRYPTION_KEY cfg) salt 1000 32 ''sha256''"
  let ?text = "JSON_stringify rt (dataWithTimestamp (JObj kvs) t0)"
  from cipher obtain enc ct dec where
    enc: "createCipheriv rt ''aes-256-cbc'' ?key (ivBuffer cfg) = Inr enc" and
    ct: "enc ?text = Inr ct" and
    dec: "createDecipheriv rt ''aes-256-cbc'' ?key (ivBuffer cfg) = Inr dec" and
    inv: "dec ct = Inr ?text"
    by (auto simp: cipher_inverts_def split: sum.splits)
  have envelope: "fst (encryptPayload cfg rt t0 salt (JObj kvs) w) =
      JObj [(''encrypted'', JStr ct), (''salt'', JStr (hex_encode salt)),
            (''signature'', JStr (hex_encode (createHmac rt ''sha256'' (ENCRYPTION_KEY cfg) ct))),
            (''algorithm'', JStr ''AES-256-CBC''), (''timestamp'', JNum t0),
            (''success'', JBool True)]"
    by (rule encryptPayload_envelope [OF enc ct])
  show ?thesis
    unfolding envelope
    using dec inv json [unfolded json_roundtrips_def] fresh strip_internal_fields [OF no_ts no_version, of t0]
    by (simp add: eff_defs decryptPayload_def decrypt_and_parse_def derive_and_decrypt_def
          verify_signature_def
          check_freshness_def Buffer_from_hex_def string_arg_def ToNumber_def Let_def
          timestamp_of_dataWithTimestamp)
qed

theorem encrypt_decrypt_roundtrip_witness:
  "cipher_inverts test_rt
     (pbkdf2Sync test_rt (ENCRYPTION_KEY test_config) test_salt 1000 32 ''sha256'')
     (ivBuffer test_config) (JSON_stringify test_rt (dataWithTimestamp test_payload 1000)) \<and>
   json_roundtrips test_rt (dataWithTimestamp test_payload 1000) \<and>
   fst (decryptPayload test_config test_rt 2000 ''2026-01-01T00:00:01.000Z''
          (fst (encryptPayload test_config test_rt 1000 test_salt test_payload test_world))
          test_world) =
     DecryptionSuccess test_payload ''2026-01-01T00:00:01.000Z''"
proof -
  let ?kvs = "[(''callId'', JStr ''call_1''), (''duration'', JNum 42)]"
  have p: "test_payload = JObj ?kvs" by (simp add: test_payload_def)
  have a: "''_timestamp'' \<notin> fst ` set ?kvs" by simp
  have b: "''_version'' \<notin> fst ` set ?kvs" by simp
  have c: "cipher_inverts test_rt
     (pbkdf2Sync test_rt (ENCRYPTION_KEY test_config) test_salt 1000 32 ''sha256'')
     (ivBuffer test_config) (JSON_stringify test_rt (dataWithTimestamp (JObj ?kvs) 1000))"
    by code_simp
  have j: "json_roundtrips test_rt (dataWithTimestamp (JObj ?kvs) 1000)"
    by code_simp
  have f: "(2000 :: int) - 1000 \<le> 300000" by simp
  from encrypt_decrypt_roundtrip [OF a b c j f] c j show ?thesis
    unfolding p by simp
qed

subsection \<open>The gate and the freshness window\<close>

lemma decryptPayload_of_parsed:
  assumes "decrypt_and_parse cfg rt env w = (Inr payload, w')"
  shows "decryptPayload cfg rt now t env w =
           (case check_freshness rt now t payload w' of
              (Inl e, v) \<Rightarrow> (DecryptionError (message e), v)
            | (Inr r, v) \<Rightarrow> (r, v))"
  using assms by (simp add: decryptPayload_def catch_def and_then_def)

lemma decryptPayload_of_failure:
  assumes "decrypt_and_parse cfg rt env w = (Inl e, w')"
  shows "decryptPayload cfg rt now t env w = (DecryptionError (message e), w')"
  using assms by (simp add: decryptPayload_def catch_def and_then_def)

lemma check_freshness_stale:
  assumes "get_prop payload ''_timestamp'' = Inr ts" and "ToNumber rt ts = Num t"
    and "now - t > 300000"
  shows "check_freshness rt now iso_t payload w =
           (Inr (ReplayAttackDetected (Num (now - t)) 300000), w)"
  using assms by (simp add: check_freshness_def eff_defs)

lemma check_freshness_fresh:
  assumes "get_prop payload ''_timestamp'' = Inr ts"
    and "\<not> js_greater (js_minus (Num now) (ToNumber rt ts)) (Num 300000)"
  shows "check_freshness rt now iso_t payload w =
           (Inr (DecryptionSuccess (delete_prop ''_version'' (delete_prop ''_timestamp'' payload))
                   iso_t), w)"
  using assms by (simp add: check_freshness_def eff_defs)

lemma saveVapiCallLog_of_result:
  assumes "get_prop requestBody ''encrypted'' = Inr encrypted" and "truthy encrypted"
    and "decryptPayload cfg rt (date_now clk) (iso_decrypted clk) requestBody w = (r, w')"
  shows "saveVapiCallLog cfg rt clk requestBody w =
           catch (after_decryption rt (iso_entry clk) r) (server_error (iso_catch clk)) w'"
  using assms by (simp add: saveVapiCallLog_def saveVapiCallLog_try_def eff_defs)

lemma after_decryption_not_success:
  assumes "\<not> result_success r"
  shows "after_decryption rt timestamp r w = (Inr (decryption_failed timestamp r), w)"
  using assms by (cases r) (simp_all add: after_decryption_def ret_def)

text \<open>
  Claim C2 (freshness). Let a request pass the gate, decrypt and parse to a payload whose
  \<^verbatim>\<open>_timestamp\<close> converts to the number \<open>t\<close>. If \<^verbatim>\<open>now - t\<close> exceeds 300000, the
  handler answers 403 with the code \<^verbatim>\<open>REPLAY_ATTACK_DETECTED\<close>, the documents are as
  before and no call of the request is a write. If \<^verbatim>\<open>now - t\<close> is at most 300000,
  \<^verbatim>\<open>decryptPayload\<close> passes the check and returns a success with the payload stripped
  of its internal fields.
\<close>

theorem freshness_window:
  assumes gate: "get_prop requestBody ''encrypted'' = Inr encrypted" "truthy encrypted"
    and parsed: "decrypt_and_parse cfg rt requestBody w = (Inr payload, w')"
    and ts: "get_prop payload ''_timestamp'' = Inr ts" "ToNumber rt ts = Num t"
  shows "(date_now clk - t > 300000 \<longrightarrow>
            saveVapiCallLog cfg rt clk requestBody w =
              (decryption_failed (iso_entry clk)
                 (ReplayAttackDetected (Num (date_now clk - t)) 300000), w') \<and>
            status (fst (saveVapiCallLog cfg rt clk requestBody w)) = 403 \<and>
            response_code (fst (saveVapiCallLog cfg rt clk requestBody w)) =
              Some (JStr ''REPLAY_ATTACK_DETECTED'') \<and>
            firestore w' = firestore w \<and>
            (\<forall>c\<in>set (calls_during w w'). \<not> is_persistence c)) \<and>
         (date_now clk - t \<le> 300000 \<longrightarrow>
            decryptPayload cfg rt (date_now clk) (iso_decrypted clk) requestBody w =
              (DecryptionSuccess (delete_prop ''_version'' (delete_prop ''_timestamp'' payload))
                 (iso_decrypted clk), w'))"
proof (intro conjI impI)
  assume stale: "date_now clk - t > 300000"
  have r: "decryptPayload cfg rt (date_now clk) (iso_decrypted clk) requestBody w =
             (ReplayAttackDetected (Num (date_now clk - t)) 300000, w')"
    by (simp add: decryptPayload_of_parsed [OF parsed] check_freshness_stale [OF ts stale])
  show save: "saveVapiCallLog cfg rt clk requestBody w =
      (decryption_failed (iso_entry clk) (ReplayAttackDetected (Num (date_now clk - t)) 300000), w')"
    by (simp add: saveVapiCallLog_of_result [OF gate r] after_decryption_not_success catch_def)
  show "status (fst (saveVapiCallLog cfg rt clk requestBody w)) = 403"
    by (simp add: save decryption_failed_def)
  show "response_code (fst (saveVapiCallLog cfg rt clk requestBody w)) =
          Some (JStr ''REPLAY_ATTACK_DETECTED'')"
    by (simp add: save decryption_failed_def response_code_def)
  show "firestore w' = firestore w"
    by (rule decryptPayload_frame(1) [OF r])
  show "\<forall>c\<in>set (calls_during w w'). \<not> is_persistence c"
    by (rule decryptPayload_frame(2) [OF r])
next
  assume fresh: "date_now clk - t \<le> 300000"
  have "\<not> js_greater (js_minus (Num (date_now clk)) (ToNumber rt ts)) (Num 300000)"
    using fresh by (simp add: ts)
  then show "decryptPayload cfg rt (date_now clk) (iso_decrypted clk) requestBody w =
      (DecryptionSuccess (delete_prop ''_version'' (delete_prop ''_timestamp'' payload))
         (iso_decrypted clk), w')"
    by (simp add: decryptPayload_of_parsed [OF parsed] check_freshness_fresh [OF ts(1)])
qed

theorem freshness_window_witness:
  "status (fst (saveVapiCallLog test_config test_rt (test_clock 301001) test_envelope test_world)) = 403 \<and>
   response_code (fst (saveVapiCallLog test_config test_rt (test_clock 301001) test_envelope test_world)) =
     Some (JStr ''REPLAY_ATTACK_DETECTED'') \<and>
   firestore (snd (saveVapiCallLog test_config test_rt (test_clock 301001) test_envelope test_world)) =
     firestore test_world \<and>
   fst (decryptPayload test_config test_rt 301000 ''2026-01-01T00:00:00.001Z'' test_envelope test_world) =
     DecryptionSuccess test_payload ''2026-01-01T00:00:00.001Z''"
proof -
  let ?p = "dataWithTimestamp test_payload 1000"
  let ?w' = "snd (decrypt_and_parse test_config test_rt test_envelope test_world)"
  have gate: "get_prop test_envelope ''encrypted'' = Inr (map_of (spread test_envelope) ''encrypted'')"
    by code_simp
  have tr: "truthy (map_of (spread test_envelope) ''encrypted'')"
    by code_simp
  have "fst (decrypt_and_parse test_config test_rt test_envelope test_world) = Inr ?p"
    by code_simp
  then have parsed: "decrypt_and_parse test_config test_rt test_envelope test_world = (Inr ?p, ?w')"
    by (simp add: prod_eq_iff)
  have ts: "get_prop ?p ''_timestamp'' = Inr (Some (JNum 1000))"
    by code_simp
  have num: "ToNumber test_rt (Some (JNum 1000)) = Num 1000"
    by (simp add: ToNumber_def)
  have strip: "delete_prop ''_version'' (delete_prop ''_timestamp'' ?p) = test_payload"
    by code_simp
  note stale = freshness_window [OF gate tr parsed ts num, of "test_clock 301001"]
  note fresh = freshness_window [OF gate tr parsed ts num, of "test_clock 301000"]
  have gt: "date_now (test_clock 301001) - 1000 > 300000" by simp
  have le: "date_now (test_clock 301000) - 1000 \<le> 300000" by simp
  note rejected = stale [THEN conjunct1, THEN mp, OF gt]
  note accepted = fresh [THEN conjunct2, THEN mp, OF le]
  have "status (fst (saveVapiCallLog test_config test_rt (test_clock 301001) test_envelope test_world)) = 403"
    by (rule rejected [THEN conjunct2, THEN conjunct1])
  moreover have "response_code (fst (saveVapiCallLog test_config test_rt (test_clock 301001) test_envelope test_world)) =
           Some (JStr ''REPLAY_ATTACK_DETECTED'')"
    by (rule rejected [THEN conjunct2, THEN conjunct2, THEN conjunct1])
  moreover have "firestore (snd (saveVapiCallLog test_config test_rt (test_clock 301001) test_envelope test_world)) =
     firestore test_world"
    using rejected [THEN conjunct1] rejected [THEN conjunct2, THEN conjunct2, THEN conjunct2, THEN conjunct1]
    by simp
  moreover have
    "fst (decryptPayload test_config test_rt 301000 ''2026-01-01T00:00:00.001Z'' test_envelope test_world) =
       DecryptionSuccess test_payload ''2026-01-01T00:00:00.001Z''"
    using accepted by (simp add: strip)
  ultimately show ?thesis by (intro conjI)
qed


text \<open>
  Claim C4 (unencrypted payloads). A request whose \<^verbatim>\<open>encrypted\<close> field is absent or
  \<^verbatim>\<open>false\<close> is answered 400 with the code \<^verbatim>\<open>UNENCRYPTED_DATA\<close>, and the world is
  unchanged: no key derivation, no cipher, no write, no call at all.
\<close>

theorem unencrypted_rejected:
  assumes "get_prop requestBody ''encrypted'' = Inr None \<or>
           get_prop requestBody ''encrypted'' = Inr (Some (JBool False))"
  shows "saveVapiCallLog cfg rt clk requestBody w = (unencrypted (iso_entry clk), w) \<and>
         status (unencrypted (iso_entry clk)) = 400 \<and>
         response_code (unencrypted (iso_entry clk)) = Some (JStr ''UNENCRYPTED_DATA'') \<and>
         calls_during w (snd (saveVapiCallLog cfg rt clk requestBody w)) = []"
  using assms
  by (auto simp: saveVapiCallLog_def saveVapiCallLog_try_def eff_defs unencrypted_def
        response_code_def calls_during_def)

theorem unencrypted_rejected_witness:
  "saveVapiCallLog test_config test_rt (test_clock 2000) (JObj [(''callId'', JStr ''call_1'')]) test_world =
     (unencrypted ''2026-01-01T00:00:00.000Z'', test_world) \<and>
   saveVapiCallLog test_config test_rt (test_clock 2000)
       (JObj [(''encrypted'', JBool False), (''encryptedData'', JStr ''00'')]) test_world =
     (unencrypted ''2026-01-01T00:00:00.000Z'', test_world) \<and>
   status (unencrypted ''2026-01-01T00:00:00.000Z'') = 400 \<and>
   response_code (unencrypted ''2026-01-01T00:00:00.000Z'') = Some (JStr ''UNENCRYPTED_DATA'')"
proof -
  have absent: "get_prop (JObj [(''callId'', JStr ''call_1'')]) ''encrypted'' = Inr None \<or>
      get_prop (JObj [(''callId'', JStr ''call_1'')]) ''encrypted'' = Inr (Some (JBool False))"
    by simp
  have false: "get_prop (JObj [(''encrypted'', JBool False), (''encryptedData'', JStr ''00'')]) ''encrypted'' = Inr None \<or>
      get_prop (JObj [(''encrypted'', JBool False), (''encryptedData'', JStr ''00'')]) ''encrypted'' = Inr (Some (JBool False))"
    by simp
  from unencrypted_rejected [OF absent, of test_config test_rt "test_clock 2000" test_world]
    unencrypted_rejected [OF false, of test_config test_rt "test_clock 2000" test_world]
  show ?thesis by simp
qed


text \<open>
  Claim C10 (a missing timestamp). When the plaintext parses to an object with no
  \<^verbatim>\<open>_timestamp\<close> field, the age is \<^verbatim>\<open>NaN\<close>, the comparison with the window is false,
  and \<^verbatim>\<open>decryptPayload\<close> returns a success whatever the time is.
\<close>

theorem missing_timestamp_accepted:
  assumes parsed: "decrypt_and_parse cfg rt encryptedData w = (Inr (JObj kvs), w')"
    and missing: "map_of kvs ''_timestamp'' = None"
  shows "decryptPayload cfg rt now t encryptedData w =
           (DecryptionSuccess (JObj (AList.delete ''_version'' kvs)) t, w') \<and>
         js_minus (Num now) (ToNumber rt (map_of kvs ''_timestamp'')) = NaN \<and>
         \<not> js_greater (js_minus (Num now) (ToNumber rt (map_of kvs ''_timestamp''))) (Num 300000)"
proof -
  have ts: "get_prop (JObj kvs) ''_timestamp'' = Inr None"
    by (simp add: missing)
  have nan: "js_minus (Num now) (ToNumber rt None) = NaN"
    by (simp add: ToNumber_def)
  have "AList.delete ''_timestamp'' kvs = kvs"
    using missing by (simp add: delete_id map_of_eq_None_iff)
  then show ?thesis
    using nan by (simp add: decryptPayload_of_parsed [OF parsed] check_freshness_fresh [OF ts] missing)
qed

theorem missing_timestamp_accepted_witness:
  "fst (decryptPayload test_config bare_rt 1000000000000000 ''2026-01-01T00:00:00.001Z''
          bare_envelope test_world) =
     DecryptionSuccess test_payload ''2026-01-01T00:00:00.001Z''"
proof -
  let ?kvs = "[(''callId'', JStr ''call_1''), (''duration'', JNum 42)]"
  let ?w' = "snd (decrypt_and_parse test_config bare_rt bare_envelope test_world)"
  have "fst (decrypt_and_parse test_config bare_rt bare_envelope test_world) = Inr (JObj ?kvs)"
    by code_simp
  then have parsed: "decrypt_and_parse test_config bare_rt bare_envelope test_world = (Inr (JObj ?kvs), ?w')"
    by (simp add: prod_eq_iff)
  have missing: "map_of ?kvs ''_timestamp'' = None" by simp
  from missing_timestamp_accepted [OF parsed missing, of 1000000000000000 "''2026-01-01T00:00:00.001Z''"]
  show ?thesis by (simp add: test_payload_def)
qed

subsection \<open>Uniform computations\<close>

lemma uniformI:
  assumes "\<And>w. m w = (r, w\<lparr>calls := calls w @ cs, firestore := g (firestore w)\<rparr>)"
  shows "uniform m"
  unfolding uniform_def by (intro exI allI) (rule assms)

lemma uniform_of_logs_only: "logs_only P m \<Longrightarrow> uniform m"
proof -
  assume "logs_only P m"
  then obtain r cs where run: "\<And>w. m w = (r, w\<lparr>calls := calls w @ cs\<rparr>)"
    unfolding logs_only_def by blast
  show "uniform m"
    by (rule uniformI [where r = r and cs = cs and g = "\<lambda>f. f"]) (simp add: run)
qed

lemma uniform_ret: "uniform (ret x)"
  by (rule uniform_of_logs_only [OF logs_only_ret [of "\<lambda>c. True"]])

lemma uniform_throw: "uniform (throw e)"
  by (rule uniform_of_logs_only [OF logs_only_throw [of "\<lambda>c. True"]])

lemma uniform_lift: "uniform (lift r)"
  by (rule uniform_of_logs_only [OF logs_only_lift [of "\<lambda>c. True"]])

lemma uniform_perform: "uniform (perform c)"
  by (rule uniform_of_logs_only [OF logs_only_perform [of "\<lambda>c. True"]]) simp

lemma uniform_write_document: "uniform (write_document c p d)"
  by (rule uniformI [where r = "Inr ()" and cs = "[]" and g = "\<lambda>f. f((c, p) \<mapsto> d)"]) (simp add: write_document_def)

lemma uniform_and_then:
  assumes m: "uniform m" and f: "\<And>x. uniform (f x)"
  shows "uniform (and_then m f)"
proof -
  from m obtain r cs g where
    run: "\<And>w. m w = (r, w\<lparr>calls := calls w @ cs, firestore := g (firestore w)\<rparr>)"
    unfolding uniform_def by blast
  show ?thesis
  proof (cases r)
    case (Inl e)
    show ?thesis
      by (rule uniformI [where r = "Inl e" and cs = cs and g = g]) (simp add: and_then_def run Inl)
  next
    case (Inr x)
    from f [of x] obtain r' cs' g' where
      run': "\<And>w. f x w = (r', w\<lparr>calls := calls w @ cs', firestore := g' (firestore w)\<rparr>)"
      unfolding uniform_def by blast
    show ?thesis
      by (rule uniformI [where r = r' and cs = "cs @ cs'" and g = "g' \<circ> g"]) (simp add: and_then_def run Inr run')
  qed
qed

lemmas uniform_intros = uniform_ret uniform_throw uniform_lift uniform_perform
  uniform_write_document uniform_and_then

lemma uniform_doc_set: "uniform (doc_set rt c docId d)"
  unfolding doc_set_def
  by (auto intro!: uniform_intros split: option.splits json.splits)

lemma uniform_after_decryption: "uniform (after_decryption rt timestamp r)"
  unfolding after_decryption_def
  by (auto intro!: uniform_intros uniform_doc_set split: decrypt_result.splits)

subsection \<open>The signature\<close>

lemma derive_and_decrypt_calls:
  "calls (snd (derive_and_decrypt cfg rt enc salt w)) =
     calls w @
     (case Buffer_from_hex rt salt of
        Inl e \<Rightarrow> []
      | Inr sb \<Rightarrow>
          [Pbkdf2Sync (ENCRYPTION_KEY cfg) sb 1000 32 ''sha256'',
           CreateDecipheriv ''aes-256-cbc''
             (pbkdf2Sync rt (ENCRYPTION_KEY cfg) sb 1000 32 ''sha256'') (ivBuffer cfg)])"
  by (simp add: derive_and_decrypt_def eff_defs Let_def split: sum.splits)

lemma verify_signature_string:
  "verify_signature cfg rt (Some (JStr ct)) sig w =
     (Inr (), w\<lparr>calls := calls w @
        (if truthy sig then [CreateHmac ''sha256'' (ENCRYPTION_KEY cfg)] else [])\<rparr>)"
  by (simp add: verify_signature_def eff_defs string_arg_def Let_def)

lemma decryptPayload_with_signature:
  assumes "map_of kvs ''encrypted'' = Some (JStr ct)"
  shows "decryptPayload cfg rt now t (JObj (AList.update ''signature'' s kvs)) w =
           catch (and_then (derive_and_decrypt cfg rt (Some (JStr ct)) (map_of kvs ''salt''))
                    (check_freshness rt now t))
             (\<lambda>error. DecryptionError (message error))
             (w\<lparr>calls := calls w @
                (if truthy (Some s) then [CreateHmac ''sha256'' (ENCRYPTION_KEY cfg)] else [])\<rparr>)"
  using assms
  by (simp add: decryptPayload_def decrypt_and_parse_def verify_signature_string update_conv'
        and_then_def lift_def catch_def)

lemma uniform_appends:
  assumes "uniform m" and "m w = (r, w')"
  shows "\<exists>cs. calls w' = calls w @ cs"
proof -
  from assms(1) obtain r0 cs g where
    run: "\<And>w. m w = (r0, w\<lparr>calls := calls w @ cs, firestore := g (firestore w)\<rparr>)"
    unfolding uniform_def by blast
  from run [of w] assms(2) show ?thesis by auto
qed

lemma check_freshness_world: "snd (check_freshness rt now t payload w) = w"
  by (simp add: check_freshness_def eff_defs Let_def split: sum.splits)

lemma decrypt_tail_calls:
  "calls (snd (catch (and_then (derive_and_decrypt cfg rt enc salt) (check_freshness rt now t)) h w)) =
     calls (snd (derive_and_decrypt cfg rt enc salt w))"
proof (cases "derive_and_decrypt cfg rt enc salt w")
  case (Pair r v)
  show ?thesis
  proof (cases r)
    case (Inl e)
    with Pair show ?thesis by (simp add: catch_def and_then_def)
  next
    case (Inr payload)
    with Pair check_freshness_world [of rt now t payload v] show ?thesis
      by (cases "check_freshness rt now t payload v")
        (auto simp: catch_def and_then_def split: sum.splits)
  qed
qed

text \<open>The calls of the key derivation and the decipher for a salt.\<close>

lemma ingest_with_signature:
  assumes ct: "map_of kvs ''encrypted'' = Some (JStr ct)"
  obtains res cs f where
    "\<And>s. saveVapiCallLog cfg rt clk (JObj (AList.update ''signature'' s kvs)) w =
             (res, w\<lparr>calls := calls w @
                      (if ct \<noteq> [] \<and> truthy (Some s)
                       then [CreateHmac ''sha256'' (ENCRYPTION_KEY cfg)] else []) @
                      (if ct \<noteq> [] then
                         (case Buffer_from_hex rt (map_of kvs ''salt'') of
                            Inl e \<Rightarrow> []
                          | Inr sb \<Rightarrow>
                              [Pbkdf2Sync (ENCRYPTION_KEY cfg) sb 1000 32 ''sha256'',
                               CreateDecipheriv ''aes-256-cbc''
                                 (pbkdf2Sync rt (ENCRYPTION_KEY cfg) sb 1000 32 ''sha256'')
                                 (ivBuffer cfg)])
                       else []) @ cs,
                    firestore := f\<rparr>)"
proof (cases "ct = []")
  case True
  show ?thesis
  proof (rule that [where res = "unencrypted (iso_entry clk)" and cs = "[]" and f = "firestore w"])
    fix s
    show "saveVapiCallLog cfg rt clk (JObj (AList.update ''signature'' s kvs)) w =
             (unencrypted (iso_entry clk), w\<lparr>calls := calls w @
                      (if ct \<noteq> [] \<and> truthy (Some s)
                       then [CreateHmac ''sha256'' (ENCRYPTION_KEY cfg)] else []) @
                      (if ct \<noteq> [] then
                         (case Buffer_from_hex rt (map_of kvs ''salt'') of
                            Inl e \<Rightarrow> []
                          | Inr sb \<Rightarrow>
                              [Pbkdf2Sync (ENCRYPTION_KEY cfg) sb 1000 32 ''sha256'',
                               CreateDecipheriv ''aes-256-cbc''
                                 (pbkdf2Sync rt (ENCRYPTION_KEY cfg) sb 1000 32 ''sha256'')
                                 (ivBuffer cfg)])
                       else []) @ [],
                    firestore := firestore w\<rparr>)"
      using ct True
      by (simp add: saveVapiCallLog_def saveVapiCallLog_try_def eff_defs update_conv')
  qed
next
  case False
  let ?D = "and_then (derive_and_decrypt cfg rt (Some (JStr ct)) (map_of kvs ''salt''))
              (check_freshness rt (date_now clk) (iso_decrypted clk))"
  let ?h = "\<lambda>error. DecryptionError (message error)"
  let ?X = "case Buffer_from_hex rt (map_of kvs ''salt'') of
              Inl e \<Rightarrow> []
            | Inr sb \<Rightarrow>
                [Pbkdf2Sync (ENCRYPTION_KEY cfg) sb 1000 32 ''sha256'',
                 CreateDecipheriv ''aes-256-cbc''
                   (pbkdf2Sync rt (ENCRYPTION_KEY cfg) sb 1000 32 ''sha256'') (ivBuffer cfg)]"
  have "logs_only (\<lambda>c. True) (returns (catch ?D ?h))"
    by (intro logs_only_returns_catch logs_only_and_then)
      (auto simp: derive_and_decrypt_def check_freshness_def Let_def intro!: logs_only_intros)
  then obtain r0 cs where
    run: "\<And>v. returns (catch ?D ?h) v = (r0, v\<lparr>calls := calls v @ cs\<rparr>)"
    unfolding logs_only_def by blast
  have cs: "cs = ?X"
  proof -
    from run [of w] have "calls (snd (catch ?D ?h w)) = calls w @ cs"
      by (auto simp: returns_def split: prod.splits)
    then show ?thesis
      by (simp add: decrypt_tail_calls derive_and_decrypt_calls)
  qed
  have D: "\<And>v. catch ?D ?h v = (fst (catch ?D ?h w), v\<lparr>calls := calls v @ ?X\<rparr>)"
  proof -
    fix v
    from run [of v] run [of w]
    show "catch ?D ?h v = (fst (catch ?D ?h w), v\<lparr>calls := calls v @ ?X\<rparr>)"
      unfolding cs by (auto simp: returns_def split: prod.splits)
  qed
  define r where "r = fst (catch ?D ?h w)"
  from uniform_after_decryption [of rt "iso_entry clk" r] obtain r1 cs1 g1 where
    after: "\<And>v. after_decryption rt (iso_entry clk) r v =
              (r1, v\<lparr>calls := calls v @ cs1, firestore := g1 (firestore v)\<rparr>)"
    unfolding uniform_def by blast
  let ?res = "case r1 of Inl e \<Rightarrow> server_error (iso_catch clk) e | Inr x \<Rightarrow> x"
  have all: "\<forall>s. saveVapiCallLog cfg rt clk (JObj (AList.update ''signature'' s kvs)) w =
          (?res, w\<lparr>calls := calls w @
                    (if ct \<noteq> [] \<and> truthy (Some s)
                     then [CreateHmac ''sha256'' (ENCRYPTION_KEY cfg)] else []) @
                    (if ct \<noteq> [] then ?X else []) @ cs1,
                  firestore := g1 (firestore w)\<rparr>)"
  proof
    fix s
    have gate: "get_prop (JObj (AList.update ''signature'' s kvs)) ''encrypted'' = Inr (Some (JStr ct))"
      using ct by (simp add: update_conv')
    have tr: "truthy (Some (JStr ct))" using False by simp
    let ?w1 = "w\<lparr>calls := calls w @
                 (if truthy (Some s) then [CreateHmac ''sha256'' (ENCRYPTION_KEY cfg)] else [])\<rparr>"
    have dec: "decryptPayload cfg rt (date_now clk) (iso_decrypted clk)
                 (JObj (AList.update ''signature'' s kvs)) w = (r, ?w1\<lparr>calls := calls ?w1 @ ?X\<rparr>)"
      unfolding r_def by (simp only: decryptPayload_with_signature [OF ct] D [of ?w1])
    show "saveVapiCallLog cfg rt clk (JObj (AList.update ''signature'' s kvs)) w =
          (?res, w\<lparr>calls := calls w @
                    (if ct \<noteq> [] \<and> truthy (Some s)
                     then [CreateHmac ''sha256'' (ENCRYPTION_KEY cfg)] else []) @
                    (if ct \<noteq> [] then ?X else []) @ cs1,
                  firestore := g1 (firestore w)\<rparr>)"
      unfolding saveVapiCallLog_of_result [OF gate tr dec]
      using False by (simp add: catch_def after split: sum.splits)
  qed
  show ?thesis
    by (rule that [where res = ?res and cs = cs1 and f = "g1 (firestore w)"]) (rule all [rule_format])
qed

text \<open>
  Claim C3 (the signature is not fatal). Take an envelope whose \<^verbatim>\<open>encrypted\<close> field is a
  string and put any two values in its \<^verbatim>\<open>signature\<close> field, for instance one that does
  not match the recomputed digest and the one that does. The handler sends the same
  response, leaves the same documents and makes the same calls apart from the digest
  itself; and whenever the ciphertext is not empty and the salt decodes, the key
  derivation and the decipher are called. So a mismatch alone never turns a success
  into a \<^verbatim>\<open>DECRYPTION_ERROR\<close> and never prevents the write.
\<close>

theorem signature_mismatch_not_fatal:
  assumes ct: "map_of kvs ''encrypted'' = Some (JStr ct)"
  shows "fst (saveVapiCallLog cfg rt clk (JObj (AList.update ''signature'' sig kvs)) w) =
           fst (saveVapiCallLog cfg rt clk (JObj (AList.update ''signature'' sig' kvs)) w) \<and>
         firestore (snd (saveVapiCallLog cfg rt clk (JObj (AList.update ''signature'' sig kvs)) w)) =
           firestore (snd (saveVapiCallLog cfg rt clk (JObj (AList.update ''signature'' sig' kvs)) w)) \<and>
         filter (\<lambda>c. \<not> is_signature c)
             (calls (snd (saveVapiCallLog cfg rt clk (JObj (AList.update ''signature'' sig kvs)) w))) =
           filter (\<lambda>c. \<not> is_signature c)
             (calls (snd (saveVapiCallLog cfg rt clk (JObj (AList.update ''signature'' sig' kvs)) w))) \<and>
         (ct \<noteq> [] \<longrightarrow>
            (\<forall>sb. Buffer_from_hex rt (map_of kvs ''salt'') = Inr sb \<longrightarrow>
               Pbkdf2Sync (ENCRYPTION_KEY cfg) sb 1000 32 ''sha256'' \<in>
                 set (calls_during w
                   (snd (saveVapiCallLog cfg rt clk (JObj (AList.update ''signature'' sig kvs)) w))) \<and>
               CreateDecipheriv ''aes-256-cbc''
                   (pbkdf2Sync rt (ENCRYPTION_KEY cfg) sb 1000 32 ''sha256'') (ivBuffer cfg) \<in>
                 set (calls_during w
                   (snd (saveVapiCallLog cfg rt clk (JObj (AList.update ''signature'' sig kvs)) w)))))"
proof (rule ingest_with_signature [OF ct, of cfg rt clk w])
  fix res0 st cs0
  assume run: "\<And>s. saveVapiCallLog cfg rt clk (JObj (AList.update ''signature'' s kvs)) w =
             (res0, w\<lparr>calls := calls w @
                      (if ct \<noteq> [] \<and> truthy (Some s)
                       then [CreateHmac ''sha256'' (ENCRYPTION_KEY cfg)] else []) @
                      (if ct \<noteq> [] then
                         (case Buffer_from_hex rt (map_of kvs ''salt'') of
                            Inl e \<Rightarrow> []
                          | Inr sb \<Rightarrow>
                              [Pbkdf2Sync (ENCRYPTION_KEY cfg) sb 1000 32 ''sha256'',
                               CreateDecipheriv ''aes-256-cbc''
                                 (pbkdf2Sync rt (ENCRYPTION_KEY cfg) sb 1000 32 ''sha256'')
                                 (ivBuffer cfg)])
                       else []) @ cs0,
                    firestore := st\<rparr>)"
  note r1 = run [of sig] and r2 = run [of sig']
  have nosig: "\<And>s. filter (\<lambda>c. \<not> is_signature c)
      (if ct \<noteq> [] \<and> truthy (Some s)
       then [CreateHmac ''sha256'' (ENCRYPTION_KEY cfg)] else []) = []"
    by simp
  have sel: "\<And>X. firestore (w\<lparr>calls := X, firestore := st\<rparr>) = st"
    "\<And>X. calls (w\<lparr>calls := X, firestore := st\<rparr>) = X"
    by simp_all
  show ?thesis
    unfolding r1 r2 fst_conv snd_conv calls_during_def sel
    apply (intro conjI impI allI)
    subgoal by (rule refl)
    subgoal by (rule refl)
    subgoal by (simp only: filter_append nosig)
    subgoal by simp
    subgoal by simp
    done
qed

theorem signature_mismatch_not_fatal_witness:
  "fst (saveVapiCallLog test_config test_rt (test_clock 2000)
          (JObj (AList.update ''signature'' (JStr ''deadbeef'') (spread test_envelope))) test_world) =
     fst (saveVapiCallLog test_config test_rt (test_clock 2000) test_envelope test_world) \<and>
   status (fst (saveVapiCallLog test_config test_rt (test_clock 2000)
          (JObj (AList.update ''signature'' (JStr ''deadbeef'') (spread test_envelope))) test_world)) = 200 \<and>
   firestore (snd (saveVapiCallLog test_config test_rt (test_clock 2000)
          (JObj (AList.update ''signature'' (JStr ''deadbeef'') (spread test_envelope))) test_world))
       (''vapiCallLogs'', ''call_1'') =
     Some (callLogDocument test_payload ''2026-01-01T00:00:00.000Z'')"
proof -
  let ?ct = "hex_encode (take 2 (replicate 32 0)) @ rev (json_text (dataWithTimestamp test_payload 1000))"
  let ?good = "JStr (hex_encode (createHmac test_rt ''sha256'' (ENCRYPTION_KEY test_config) ?ct))"
  have ct: "map_of (spread test_envelope) ''encrypted'' = Some (JStr ?ct)"
    by code_simp
  have same: "JObj (AList.update ''signature'' ?good (spread test_envelope)) = test_envelope"
    by code_simp
  have ok: "status (fst (saveVapiCallLog test_config test_rt (test_clock 2000) test_envelope test_world)) = 200"
    by code_simp
  have doc: "firestore (snd (saveVapiCallLog test_config test_rt (test_clock 2000) test_envelope test_world))
       (''vapiCallLogs'', ''call_1'') = Some (callLogDocument test_payload ''2026-01-01T00:00:00.000Z'')"
    by code_simp
  from signature_mismatch_not_fatal [OF ct, of test_config test_rt "test_clock 2000" "JStr ''deadbeef''"
      test_world ?good]
  show ?thesis unfolding same using ok doc by simp
qed

subsection \<open>The calls of one decryption and one encryption\<close>

lemma get_prop_cases:
  obtains (null) "v = JNull" "\<And>k. \<exists>e. get_prop v k = Inl e"
  | (other) "v \<noteq> JNull" "\<And>k. \<exists>x. get_prop v k = Inr x"
  by (cases v) auto

lemma decrypt_and_parse_null:
  "snd (decrypt_and_parse cfg rt JNull w) = w"
  by (simp add: decrypt_and_parse_def eff_defs)

lemma decrypt_and_parse_calls:
  assumes "get_prop env ''encrypted'' = Inr encrypted"
    and "get_prop env ''salt'' = Inr salt"
    and "get_prop env ''signature'' = Inr signature"
  shows "calls (snd (decrypt_and_parse cfg rt env w)) =
           calls w @
           (if truthy signature then [CreateHmac ''sha256'' (ENCRYPTION_KEY cfg)] else []) @
           (if truthy signature \<and> isl (string_arg encrypted) then []
            else (case Buffer_from_hex rt salt of
                    Inl e \<Rightarrow> []
                  | Inr sb \<Rightarrow>
                      [Pbkdf2Sync (ENCRYPTION_KEY cfg) sb 1000 32 ''sha256'',
                       CreateDecipheriv ''aes-256-cbc''
                         (pbkdf2Sync rt (ENCRYPTION_KEY cfg) sb 1000 32 ''sha256'')
                         (ivBuffer cfg)]))"
proof (cases "truthy signature")
  case False
  then show ?thesis
    using assms
    by (simp add: decrypt_and_parse_def verify_signature_def and_then_def lift_def ret_def
          derive_and_decrypt_calls)
next
  case True
  show ?thesis
  proof (cases "string_arg encrypted")
    case (Inl e)
    with True assms show ?thesis
      by (simp add: decrypt_and_parse_def verify_signature_def and_then_def lift_def ret_def
            perform_def)
  next
    case (Inr ct)
    with True assms show ?thesis
      by (simp add: decrypt_and_parse_def verify_signature_def and_then_def lift_def ret_def
            perform_def derive_and_decrypt_calls)
  qed
qed

lemma decryptPayload_calls:
  "calls (snd (decryptPayload cfg rt now t env w)) = calls (snd (decrypt_and_parse cfg rt env w))"
proof (cases "decrypt_and_parse cfg rt env w")
  case (Pair r v)
  show ?thesis
  proof (cases r)
    case (Inl e)
    with Pair show ?thesis by (simp add: decryptPayload_def catch_def and_then_def)
  next
    case (Inr payload)
    with Pair check_freshness_world [of rt now t payload v] show ?thesis
      by (cases "check_freshness rt now t payload v")
        (auto simp: decryptPayload_def catch_def and_then_def split: sum.splits)
  qed
qed

lemma decrypt_and_parse_reaches_cipher:
  assumes "decrypt_and_parse cfg rt env w = (Inr payload, w')"
  shows "\<exists>salt sb. get_prop env ''salt'' = Inr salt \<and> Buffer_from_hex rt salt = Inr sb \<and>
           Pbkdf2Sync (ENCRYPTION_KEY cfg) sb 1000 32 ''sha256'' \<in> set (calls_during w w') \<and>
           CreateDecipheriv ''aes-256-cbc''
             (pbkdf2Sync rt (ENCRYPTION_KEY cfg) sb 1000 32 ''sha256'') (ivBuffer cfg)
             \<in> set (calls_during w w')"
proof (cases env rule: get_prop_cases)
  case null
  with assms show ?thesis by (simp add: decrypt_and_parse_def eff_defs)
next
  case other
  then obtain encrypted salt signature where
    g: "get_prop env ''encrypted'' = Inr encrypted" "get_prop env ''salt'' = Inr salt"
       "get_prop env ''signature'' = Inr signature"
    by blast
  from assms g obtain v where
    v: "verify_signature cfg rt encrypted signature w = (Inr (), v)"
    and d: "derive_and_decrypt cfg rt encrypted salt v = (Inr payload, w')"
    by (auto simp: decrypt_and_parse_def and_then_def lift_def split: sum.splits prod.splits)
  from d obtain sb where sb: "Buffer_from_hex rt salt = Inr sb"
    by (cases "Buffer_from_hex rt salt") (auto simp: derive_and_decrypt_def and_then_def lift_def)
  from v have str: "\<not> (truthy signature \<and> isl (string_arg encrypted))"
    by (auto simp: verify_signature_def eff_defs Let_def split: if_splits sum.splits)
  have "calls w' = calls (snd (decrypt_and_parse cfg rt env w))"
    using assms by simp
  with decrypt_and_parse_calls [OF g, of cfg rt w] sb str
  have "calls_during w w' =
          (if truthy signature then [CreateHmac ''sha256'' (ENCRYPTION_KEY cfg)] else []) @
          [Pbkdf2Sync (ENCRYPTION_KEY cfg) sb 1000 32 ''sha256'',
           CreateDecipheriv ''aes-256-cbc''
             (pbkdf2Sync rt (ENCRYPTION_KEY cfg) sb 1000 32 ''sha256'') (ivBuffer cfg)]"
    by (simp add: calls_during_def)
  with g sb show ?thesis by auto
qed

lemma encryptPayload_calls:
  "calls_during w (snd (encryptPayload cfg rt timestamp salt payload w)) =
     [RandomBytes 16,
      Pbkdf2Sync (ENCRYPTION_KEY cfg) salt 1000 32 ''sha256'',
      CreateCipheriv ''aes-256-cbc''
        (pbkdf2Sync rt (ENCRYPTION_KEY cfg) salt 1000 32 ''sha256'') (ivBuffer cfg)] @
     (case createCipheriv rt ''aes-256-cbc''
             (pbkdf2Sync rt (ENCRYPTION_KEY cfg) salt 1000 32 ''sha256'') (ivBuffer cfg) of
        Inl e \<Rightarrow> []
      | Inr cipher \<Rightarrow>
          (case cipher (JSON_stringify rt (dataWithTimestamp payload timestamp)) of
             Inl e \<Rightarrow> []
           | Inr encrypted \<Rightarrow> [CreateHmac ''sha256'' (ENCRYPTION_KEY cfg)]))"
  by (simp add: encryptPayload_def encryptPayload_try_def eff_defs Let_def calls_during_def
        split: sum.splits)

lemma encryptPayload_firestore:
  "firestore (snd (encryptPayload cfg rt timestamp salt payload w)) = firestore w"
  by (simp add: encryptPayload_def encryptPayload_try_def eff_defs Let_def split: sum.splits)

lemma decryptPayload_calls_during:
  "calls_during w (snd (decryptPayload cfg rt now t env w)) =
     calls_during w (snd (decrypt_and_parse cfg rt env w))"
  by (simp add: calls_during_def decryptPayload_calls)

lemma decrypt_calls_are_derived:
  assumes "c \<in> set (calls_during w (snd (decrypt_and_parse cfg rt env w)))"
    and "is_key_derivation c \<or> is_cipher c"
  shows "\<exists>salt sb. get_prop env ''salt'' = Inr salt \<and> Buffer_from_hex rt salt = Inr sb \<and>
           (c = Pbkdf2Sync (ENCRYPTION_KEY cfg) sb 1000 32 ''sha256'' \<or>
            c = CreateDecipheriv ''aes-256-cbc''
                  (pbkdf2Sync rt (ENCRYPTION_KEY cfg) sb 1000 32 ''sha256'') (ivBuffer cfg))"
proof (cases env rule: get_prop_cases)
  case null
  with assms show ?thesis by (simp add: decrypt_and_parse_null calls_during_def)
next
  case other
  then obtain encrypted salt signature where
    g: "get_prop env ''encrypted'' = Inr encrypted" "get_prop env ''salt'' = Inr salt"
       "get_prop env ''signature'' = Inr signature"
    by blast
  show ?thesis
  proof (cases "Buffer_from_hex rt salt")
    case (Inl e)
    with assms show ?thesis
      by (auto simp: calls_during_def decrypt_and_parse_calls [OF g] split: if_splits)
  next
    case (Inr sb)
    with assms g(2) show ?thesis
      by (auto simp: calls_during_def decrypt_and_parse_calls [OF g] split: if_splits)
  qed
qed

theorem key_derivation_parameters:
  "(\<forall>c\<in>set (calls_during w (snd (decryptPayload cfg rt now t envelope w))).
      is_key_derivation c \<or> is_cipher c \<longrightarrow>
        (\<exists>salt sb. get_prop envelope ''salt'' = Inr salt \<and> Buffer_from_hex rt salt = Inr sb \<and>
           (c = Pbkdf2Sync (ENCRYPTION_KEY cfg) sb 1000 32 ''sha256'' \<or>
            c = CreateDecipheriv ''aes-256-cbc''
                  (pbkdf2Sync rt (ENCRYPTION_KEY cfg) sb 1000 32 ''sha256'') (ivBuffer cfg)))) \<and>
   (result_code (fst (decryptPayload cfg rt now t envelope w)) \<noteq> ''DECRYPTION_ERROR'' \<longrightarrow>
      (\<exists>salt sb. get_prop envelope ''salt'' = Inr salt \<and> Buffer_from_hex rt salt = Inr sb \<and>
         Pbkdf2Sync (ENCRYPTION_KEY cfg) sb 1000 32 ''sha256''
           \<in> set (calls_during w (snd (decryptPayload cfg rt now t envelope w))) \<and>
         CreateDecipheriv ''aes-256-cbc''
           (pbkdf2Sync rt (ENCRYPTION_KEY cfg) sb 1000 32 ''sha256'') (ivBuffer cfg)
           \<in> set (calls_during w (snd (decryptPayload cfg rt now t envelope w))))) \<and>
   take 3 (calls_during w (snd (encryptPayload cfg rt timestamp salt payload w))) =
     [RandomBytes 16,
      Pbkdf2Sync (ENCRYPTION_KEY cfg) salt 1000 32 ''sha256'',
      CreateCipheriv ''aes-256-cbc''
        (pbkdf2Sync rt (ENCRYPTION_KEY cfg) salt 1000 32 ''sha256'') (ivBuffer cfg)] \<and>
   (\<forall>c\<in>set (drop 3 (calls_during w (snd (encryptPayload cfg rt timestamp salt payload w)))).
      c = CreateHmac ''sha256'' (ENCRYPTION_KEY cfg)) \<and>
   firestore (snd (decryptPayload cfg rt now t envelope w)) = firestore w \<and>
   firestore (snd (encryptPayload cfg rt timestamp salt payload w)) = firestore w"
proof (intro conjI ballI impI)
  fix c
  assume "c \<in> set (calls_during w (snd (decryptPayload cfg rt now t envelope w)))"
    and "is_key_derivation c \<or> is_cipher c"
  then show "\<exists>salt sb. get_prop envelope ''salt'' = Inr salt \<and> Buffer_from_hex rt salt = Inr sb \<and>
           (c = Pbkdf2Sync (ENCRYPTION_KEY cfg) sb 1000 32 ''sha256'' \<or>
            c = CreateDecipheriv ''aes-256-cbc''
                  (pbkdf2Sync rt (ENCRYPTION_KEY cfg) sb 1000 32 ''sha256'') (ivBuffer cfg))"
    unfolding decryptPayload_calls_during by (rule decrypt_calls_are_derived)
next
  assume ok: "result_code (fst (decryptPayload cfg rt now t envelope w)) \<noteq> ''DECRYPTION_ERROR''"
  obtain r w' where run: "decrypt_and_parse cfg rt envelope w = (r, w')"
    by (cases "decrypt_and_parse cfg rt envelope w")
  from ok run obtain payload where r: "r = Inr payload"
    by (cases r) (auto simp: decryptPayload_of_failure)
  from decrypt_and_parse_reaches_cipher [OF run [unfolded r]] run
  show "\<exists>salt sb. get_prop envelope ''salt'' = Inr salt \<and> Buffer_from_hex rt salt = Inr sb \<and>
         Pbkdf2Sync (ENCRYPTION_KEY cfg) sb 1000 32 ''sha256''
           \<in> set (calls_during w (snd (decryptPayload cfg rt now t envelope w))) \<and>
         CreateDecipheriv ''aes-256-cbc''
           (pbkdf2Sync rt (ENCRYPTION_KEY cfg) sb 1000 32 ''sha256'') (ivBuffer cfg)
           \<in> set (calls_during w (snd (decryptPayload cfg rt now t envelope w)))"
    unfolding decryptPayload_calls_during by simp
next
  show "take 3 (calls_during w (snd (encryptPayload cfg rt timestamp salt payload w))) =
     [RandomBytes 16,
      Pbkdf2Sync (ENCRYPTION_KEY cfg) salt 1000 32 ''sha256'',
      CreateCipheriv ''aes-256-cbc''
        (pbkdf2Sync rt (ENCRYPTION_KEY cfg) salt 1000 32 ''sha256'') (ivBuffer cfg)]"
    by (simp add: encryptPayload_calls)
next
  fix c
  assume "c \<in> set (drop 3 (calls_during w (snd (encryptPayload cfg rt timestamp salt payload w))))"
  then show "c = CreateHmac ''sha256'' (ENCRYPTION_KEY cfg)"
    by (auto simp: encryptPayload_calls split: sum.splits)
next
  show "firestore (snd (decryptPayload cfg rt now t envelope w)) = firestore w"
    by (cases "decryptPayload cfg rt now t envelope w") (simp add: decryptPayload_frame(1))
next
  show "firestore (snd (encryptPayload cfg rt timestamp salt payload w)) = firestore w"
    by (rule encryptPayload_firestore)
qed

subsection \<open>Failures of the decryption\<close>

lemma result_code_cases:
  "result_code r \<in> {''DECRYPTION_SUCCESS'', ''REPLAY_ATTACK_DETECTED'', ''DECRYPTION_ERROR''}"
  by (cases r) simp_all

lemma result_success_code:
  "result_success r \<longleftrightarrow> result_code r = ''DECRYPTION_SUCCESS''"
  by (cases r) simp_all

lemma decryptPayload_throws:
  assumes "fst (decrypt_and_parse cfg rt env w) = Inl e"
  shows "fst (decryptPayload cfg rt now t env w) = DecryptionError (message e)"
  using assms
  by (cases "decrypt_and_parse cfg rt env w") (simp add: decryptPayload_of_failure)

lemma verify_signature_cases:
  obtains (thrown) e v where "truthy signature" "string_arg encrypted = Inl e"
      "verify_signature cfg rt encrypted signature w = (Inl e, v)"
  | (verified) v where "verify_signature cfg rt encrypted signature w = (Inr (), v)"
  by (cases "truthy signature"; cases "string_arg encrypted")
    (auto simp: verify_signature_def eff_defs Let_def)

lemma decrypt_and_parse_fields:
  assumes "get_prop env ''encrypted'' = Inr encrypted"
    and "get_prop env ''salt'' = Inr salt"
    and "get_prop env ''signature'' = Inr signature"
  shows "decrypt_and_parse cfg rt env w =
           and_then (verify_signature cfg rt encrypted signature)
             (\<lambda>_. derive_and_decrypt cfg rt encrypted salt) w"
  using assms by (simp add: decrypt_and_parse_def and_then_def lift_def)

lemma derive_and_decrypt_result:
  "fst (derive_and_decrypt cfg rt encrypted salt w) =
     (case Buffer_from_hex rt salt of
        Inl e \<Rightarrow> Inl e
      | Inr sb \<Rightarrow>
          (case createDecipheriv rt ''aes-256-cbc''
                  (pbkdf2Sync rt (ENCRYPTION_KEY cfg) sb 1000 32 ''sha256'') (ivBuffer cfg) of
             Inl e \<Rightarrow> Inl e
           | Inr decipher \<Rightarrow>
               (case string_arg encrypted of
                  Inl e \<Rightarrow> Inl e
                | Inr ciphertext \<Rightarrow>
                    (case decipher ciphertext of
                       Inl e \<Rightarrow> Inl e
                     | Inr decrypted \<Rightarrow> JSON_parse rt decrypted))))"
  by (simp add: derive_and_decrypt_def eff_defs Let_def split: sum.splits)

lemma decrypt_and_parse_result:
  assumes "get_prop env ''encrypted'' = Inr encrypted"
    and "get_prop env ''salt'' = Inr salt"
    and "get_prop env ''signature'' = Inr signature"
  shows "fst (decrypt_and_parse cfg rt env w) =
           (if truthy signature \<and> isl (string_arg encrypted) then Inl (projl (string_arg encrypted))
            else fst (derive_and_decrypt cfg rt encrypted salt w))"
proof (cases rule: verify_signature_cases [of signature encrypted cfg rt w])
  case (thrown e v)
  then show ?thesis
    by (simp add: decrypt_and_parse_fields [OF assms] and_then_def)
next
  case (verified v)
  then have no: "\<not> (truthy signature \<and> isl (string_arg encrypted))"
    by (auto simp: verify_signature_def eff_defs Let_def split: if_splits sum.splits)
  moreover have "fst (derive_and_decrypt cfg rt encrypted salt v) =
      fst (derive_and_decrypt cfg rt encrypted salt w)"
    by (simp add: derive_and_decrypt_result)
  ultimately show ?thesis
    using verified by (auto simp: decrypt_and_parse_fields [OF assms] and_then_def)
qed

lemma failures_with_fields:
  assumes fields: "get_prop envelope ''encrypted'' = Inr encrypted"
      "get_prop envelope ''salt'' = Inr salt"
      "get_prop envelope ''signature'' = Inr signature"
  shows "result_code (fst (decryptPayload cfg rt now t envelope w)) \<in>
           {''DECRYPTION_SUCCESS'', ''REPLAY_ATTACK_DETECTED'', ''DECRYPTION_ERROR''} \<and>
         (\<forall>e. string_arg encrypted = Inl e \<longrightarrow>
            result_code (fst (decryptPayload cfg rt now t envelope w)) = ''DECRYPTION_ERROR'') \<and>
         (\<forall>e. Buffer_from_hex rt salt = Inl e \<longrightarrow>
            result_code (fst (decryptPayload cfg rt now t envelope w)) = ''DECRYPTION_ERROR'') \<and>
         (\<forall>sb e. Buffer_from_hex rt salt = Inr sb \<longrightarrow>
            createDecipheriv rt ''aes-256-cbc''
              (pbkdf2Sync rt (ENCRYPTION_KEY cfg) sb 1000 32 ''sha256'') (ivBuffer cfg) = Inl e \<longrightarrow>
            result_code (fst (decryptPayload cfg rt now t envelope w)) = ''DECRYPTION_ERROR'') \<and>
         (\<forall>sb decipher ciphertext e. Buffer_from_hex rt salt = Inr sb \<longrightarrow>
            createDecipheriv rt ''aes-256-cbc''
              (pbkdf2Sync rt (ENCRYPTION_KEY cfg) sb 1000 32 ''sha256'') (ivBuffer cfg) = Inr decipher \<longrightarrow>
            string_arg encrypted = Inr ciphertext \<longrightarrow>
            decipher ciphertext = Inl e \<longrightarrow>
            fst (decryptPayload cfg rt now t envelope w) = DecryptionError (message e)) \<and>
         (\<forall>sb decipher ciphertext decrypted e. Buffer_from_hex rt salt = Inr sb \<longrightarrow>
            createDecipheriv rt ''aes-256-cbc''
              (pbkdf2Sync rt (ENCRYPTION_KEY cfg) sb 1000 32 ''sha256'') (ivBuffer cfg) = Inr decipher \<longrightarrow>
            string_arg encrypted = Inr ciphertext \<longrightarrow>
            decipher ciphertext = Inr decrypted \<longrightarrow>
            JSON_parse rt decrypted = Inl e \<longrightarrow>
            fst (decryptPayload cfg rt now t envelope w) = DecryptionError (message e))"
proof -
  note res = decrypt_and_parse_result [OF fields, of cfg rt w] derive_and_decrypt_result
  have thrown: "\<And>e. fst (decrypt_and_parse cfg rt envelope w) = Inl e \<Longrightarrow>
      result_code (fst (decryptPayload cfg rt now t envelope w)) = ''DECRYPTION_ERROR''"
    by (simp add: decryptPayload_throws)
  show ?thesis
  proof (intro conjI allI impI)
    show "result_code (fst (decryptPayload cfg rt now t envelope w)) \<in>
           {''DECRYPTION_SUCCESS'', ''REPLAY_ATTACK_DETECTED'', ''DECRYPTION_ERROR''}"
      by (rule result_code_cases)
  next
    fix e assume "string_arg encrypted = Inl e"
    then have "isl (fst (decrypt_and_parse cfg rt envelope w))"
      by (simp add: res split: sum.splits)
    then show "result_code (fst (decryptPayload cfg rt now t envelope w)) = ''DECRYPTION_ERROR''"
      by (cases "fst (decrypt_and_parse cfg rt envelope w)") (simp_all add: thrown)
  next
    fix e assume "Buffer_from_hex rt salt = Inl e"
    then have "isl (fst (decrypt_and_parse cfg rt envelope w))"
      by (simp add: res split: sum.splits)
    then show "result_code (fst (decryptPayload cfg rt now t envelope w)) = ''DECRYPTION_ERROR''"
      by (cases "fst (decrypt_and_parse cfg rt envelope w)") (simp_all add: thrown)
  next
    fix sb e assume "Buffer_from_hex rt salt = Inr sb"
      and "createDecipheriv rt ''aes-256-cbc''
              (pbkdf2Sync rt (ENCRYPTION_KEY cfg) sb 1000 32 ''sha256'') (ivBuffer cfg) = Inl e"
    then have "isl (fst (decrypt_and_parse cfg rt envelope w))"
      by (simp add: res split: sum.splits)
    then show "result_code (fst (decryptPayload cfg rt now t envelope w)) = ''DECRYPTION_ERROR''"
      by (cases "fst (decrypt_and_parse cfg rt envelope w)") (simp_all add: thrown)
  next
    fix sb decipher ciphertext e
    assume "Buffer_from_hex rt salt = Inr sb"
      and "createDecipheriv rt ''aes-256-cbc''
              (pbkdf2Sync rt (ENCRYPTION_KEY cfg) sb 1000 32 ''sha256'') (ivBuffer cfg) = Inr decipher"
      and "string_arg encrypted = Inr ciphertext"
      and "decipher ciphertext = Inl e"
    then have "fst (decrypt_and_parse cfg rt envelope w) = Inl e"
      by (simp add: res)
    then show "fst (decryptPayload cfg rt now t envelope w) = DecryptionError (message e)"
      by (rule decryptPayload_throws)
  next
    fix sb decipher ciphertext decrypted e
    assume "Buffer_from_hex rt salt = Inr sb"
      and "createDecipheriv rt ''aes-256-cbc''
              (pbkdf2Sync rt (ENCRYPTION_KEY cfg) sb 1000 32 ''sha256'') (ivBuffer cfg) = Inr decipher"
      and "string_arg encrypted = Inr ciphertext"
      and "decipher ciphertext = Inr decrypted"
      and "JSON_parse rt decrypted = Inl e"
    then have "fst (decrypt_and_parse cfg rt envelope w) = Inl e"
      by (simp add: res)
    then show "fst (decryptPayload cfg rt now t envelope w) = DecryptionError (message e)"
      by (rule decryptPayload_throws)
  qed
qed

subsection \<open>The write\<close>

lemma decryption_failed_status: "status (decryption_failed ts r) \<noteq> 200"
  by (simp add: decryption_failed_def Let_def)

lemma after_decryption_saved:
  assumes run: "catch (after_decryption rt ts r) (server_error ts') w = (res, w')"
    and ok: "status res = 200"
  shows "\<exists>payload t callId. r = DecryptionSuccess payload t \<and>
           get_prop payload ''callId'' = Inr (Some (JStr callId)) \<and> callId \<noteq> [] \<and>
           firestore w' = (firestore w)((''vapiCallLogs'', callId) \<mapsto> callLogDocument payload ts)"
proof (cases r)
  case (DecryptionSuccess payload t)
  show ?thesis
  proof (cases "get_prop payload ''callId''")
    case (Inl e)
    with run ok DecryptionSuccess show ?thesis
      by (auto simp: after_decryption_def eff_defs server_error_def)
  next
    case (Inr callId)
    then obtain duration where d: "get_prop payload ''duration'' = Inr duration"
      by (cases payload) auto
    show ?thesis
    proof (cases "\<exists>p. callId = Some (JStr p) \<and> p \<noteq> []")
      case True
      then obtain p where p: "callId = Some (JStr p)" "p \<noteq> []" by blast
      with run ok DecryptionSuccess Inr d show ?thesis
        by (auto simp: after_decryption_def doc_set_def write_document_def eff_defs
              server_error_def split: option.splits)
    next
      case False
      with run ok DecryptionSuccess Inr d show ?thesis
        by (cases callId rule: truthy.cases)
          (auto simp: after_decryption_def doc_set_def eff_defs server_error_def
             missing_call_id_def split: if_splits)
    qed
  qed
next
  case (ReplayAttackDetected a m)
  with run ok decryption_failed_status [of ts r] show ?thesis
    by (auto simp: after_decryption_def eff_defs)
next
  case (DecryptionError e)
  with run ok decryption_failed_status [of ts r] show ?thesis
    by (auto simp: after_decryption_def eff_defs)
qed

lemma saveVapiCallLog_saved:
  assumes run: "saveVapiCallLog cfg rt clk env w = (res, w')"
    and ok: "status res = 200"
  shows "\<exists>payload t callId.
           fst (decryptPayload cfg rt (date_now clk) (iso_decrypted clk) env w) =
             DecryptionSuccess payload t \<and>
           get_prop payload ''callId'' = Inr (Some (JStr callId)) \<and> callId \<noteq> [] \<and>
           firestore w' =
             (firestore w)((''vapiCallLogs'', callId) \<mapsto> callLogDocument payload (iso_entry clk))"
proof (cases "get_prop env ''encrypted''")
  case (Inl e)
  with run ok show ?thesis
    by (auto simp: saveVapiCallLog_def saveVapiCallLog_try_def eff_defs server_error_def)
next
  case (Inr encrypted)
  show ?thesis
  proof (cases "truthy encrypted")
    case False
    with run ok Inr show ?thesis
      by (auto simp: saveVapiCallLog_def saveVapiCallLog_try_def eff_defs unencrypted_def)
  next
    case True
    obtain r v where dec: "decryptPayload cfg rt (date_now clk) (iso_decrypted clk) env w = (r, v)"
      by (cases "decryptPayload cfg rt (date_now clk) (iso_decrypted clk) env w")
    from run have "catch (after_decryption rt (iso_entry clk) r) (server_error (iso_catch clk)) v = (res, w')"
      by (simp add: saveVapiCallLog_of_result [OF Inr True dec])
    from after_decryption_saved [OF this ok] decryptPayload_frame(1) [OF dec] dec
    show ?thesis by auto
  qed
qed

lemma callLogDocument_fields:
  assumes "k \<notin> {''createdAt'', ''savedAt'', ''encryptionMetadata''}"
  shows "map_of (callLogDocument payload ts) k = map_option Plain (map_of (spread payload) k)"
proof -
  have "map_of (map (\<lambda>(k, v). (k, Plain v)) (spread payload)) k =
          map_option Plain (map_of (spread payload) k)"
    by (induction "spread payload" arbitrary: payload) (auto simp: map_of_map)
  with assms show ?thesis
    by (simp add: callLogDocument_def update_conv')
qed

theorem idempotent_upsert:
  assumes first: "saveVapiCallLog cfg rt clk1 envelope1 w0 = (res1, w1)" "status res1 = 200"
    and second: "saveVapiCallLog cfg rt clk2 envelope2 w1 = (res2, w2)" "status res2 = 200"
    and p1: "fst (decryptPayload cfg rt (date_now clk1) (iso_decrypted clk1) envelope1 w0) =
               DecryptionSuccess payload1 t1"
    and p2: "fst (decryptPayload cfg rt (date_now clk2) (iso_decrypted clk2) envelope2 w1) =
               DecryptionSuccess payload2 t2"
    and same: "get_prop payload1 ''callId'' = get_prop payload2 ''callId''"
  shows "\<exists>callId. get_prop payload2 ''callId'' = Inr (Some (JStr callId)) \<and>
           firestore w2 =
             (firestore w0)((''vapiCallLogs'', callId) \<mapsto>
                callLogDocument payload2 (iso_entry clk2)) \<and>
           dom (firestore w2) = insert (''vapiCallLogs'', callId) (dom (firestore w0)) \<and>
           (\<forall>k. k \<notin> {''createdAt'', ''savedAt'', ''encryptionMetadata''} \<longrightarrow>
              map_of (callLogDocument payload2 (iso_entry clk2)) k =
                map_option Plain (map_of (spread payload2) k))"
proof -
  from saveVapiCallLog_saved [OF first] p1 obtain id1 where
    id1: "get_prop payload1 ''callId'' = Inr (Some (JStr id1))" and
    w1: "firestore w1 =
           (firestore w0)((''vapiCallLogs'', id1) \<mapsto> callLogDocument payload1 (iso_entry clk1))"
    by auto
  from saveVapiCallLog_saved [OF second] p2 obtain id2 where
    id2: "get_prop payload2 ''callId'' = Inr (Some (JStr id2))" and
    w2: "firestore w2 =
           (firestore w1)((''vapiCallLogs'', id2) \<mapsto> callLogDocument payload2 (iso_entry clk2))"
    by auto
  from same id1 id2 have eq: "id1 = id2" by simp
  have store: "firestore w2 =
      (firestore w0)((''vapiCallLogs'', id2) \<mapsto> callLogDocument payload2 (iso_entry clk2))"
    by (simp add: w2 w1 eq)
  show ?thesis
    using id2 store callLogDocument_fields by (intro exI [of _ id2]) auto
qed

end
